theory Spec2Isabelle
  imports Main
begin

unbundle bit_operations_syntax

section \<open>Layout mapper\<close>

text \<open>
  A Python \<^verbatim>\<open>str\<close> is a sequence of Unicode code points. The Cyrillic letters of the
  tables do not fit an 8-bit \<^typ>\<open>char\<close>, so a string is the list of its code points
  (\<^verbatim>\<open>ord\<close> of each character) and \<^verbatim>\<open>len\<close> is \<^const>\<open>length\<close>.
\<close>

type_synonym ustring = "nat list"

text \<open>
  \<^verbatim>\<open>EN_CHARS\<close>, one line per run of keys of the source literal:
  backquote, q..p, brackets; a..l, semicolon, apostrophe; z..m, comma, full stop, slash;
  tilde, Q..P, braces; A..L, colon, double quote; Z..M, less, greater, question mark;
  at, hash, dollar, caret, ampersand.
\<close>

definition EN_CHARS :: ustring where
  "EN_CHARS =
    [96, 113, 119, 101, 114, 116, 121, 117, 105, 111, 112, 91, 93,
     97, 115, 100, 102, 103, 104, 106, 107, 108, 59, 39,
     122, 120, 99, 118, 98, 110, 109, 44, 46, 47,
     126, 81, 87, 69, 82, 84, 89, 85, 73, 79, 80, 123, 125,
     65, 83, 68, 70, 71, 72, 74, 75, 76, 58, 34,
     90, 88, 67, 86, 66, 78, 77, 60, 62, 63,
     64, 35, 36, 94, 38]"

text \<open>
  \<^verbatim>\<open>RU_CHARS\<close>, in the same runs: U+0451 (io), the top letter row; the home row;
  the bottom row ending with U+044E (yu) and the full stop; then the capitals
  (U+0401 first), ending with U+042E and the comma; then double quote, U+2116
  (numero sign), semicolon, colon, question mark.
\<close>

definition RU_CHARS :: ustring where
  "RU_CHARS =
    [1105, 1081, 1094, 1091, 1082, 1077, 1085, 1075, 1096, 1097, 1079, 1093, 1098,
     1092, 1099, 1074, 1072, 1087, 1088, 1086, 1083, 1076, 1078, 1101,
     1103, 1095, 1089, 1084, 1080, 1090, 1100, 1073, 1102, 46,
     1025, 1049, 1062, 1059, 1050, 1045, 1053, 1043, 1064, 1065, 1047, 1061, 1066,
     1060, 1067, 1042, 1040, 1055, 1056, 1054, 1051, 1044, 1046, 1069,
     1071, 1063, 1057, 1052, 1048, 1058, 1068, 1041, 1070, 44,
     34, 8470, 59, 58, 63]"

text \<open>
  \<^verbatim>\<open>str.maketrans(x, y)\<close> raises \<^verbatim>\<open>ValueError\<close> unless the two strings have the same
  length; otherwise it builds the dictionary \<^verbatim>\<open>{ord(x[i]): ord(y[i])}\<close>, a later
  entry replacing an earlier one with the same key.
\<close>

definition maketrans :: "ustring \<Rightarrow> ustring \<Rightarrow> (nat \<rightharpoonup> nat) option" where
  "maketrans x y =
     (if length x = length y
      then Some (fold (\<lambda>(k, v) m. m(k \<mapsto> v)) (zip x y) Map.empty)
      else None)"

text \<open>
  The two module-level tables. The \<open>None\<close> branch is the import failing; lemma
  \<open>tables_built\<close> below shows that it is not taken.
\<close>

definition EN_TO_RU :: "nat \<rightharpoonup> nat" where
  "EN_TO_RU = (case maketrans EN_CHARS RU_CHARS of Some t \<Rightarrow> t | None \<Rightarrow> Map.empty)"

definition RU_TO_EN :: "nat \<rightharpoonup> nat" where
  "RU_TO_EN = (case maketrans RU_CHARS EN_CHARS of Some t \<Rightarrow> t | None \<Rightarrow> Map.empty)"

text \<open>
  \<^verbatim>\<open>text.translate(table)\<close>: a character whose code point is a key of the table is
  replaced by the table's value, any other character is kept.
\<close>

definition translate :: "(nat \<rightharpoonup> nat) \<Rightarrow> ustring \<Rightarrow> ustring" where
  "translate t s = map (\<lambda>c. case t c of Some d \<Rightarrow> d | None \<Rightarrow> c) s"

text \<open>The layouts are the Python strings \<^verbatim>\<open>'en'\<close> and \<^verbatim>\<open>'ru'\<close>.\<close>

definition detect_layout :: "ustring \<Rightarrow> string" where
  "detect_layout text =
     (let en_count = sum_list (map (\<lambda>c. 1::nat) (filter (\<lambda>c. c \<in> set EN_CHARS) text));
          ru_count = sum_list (map (\<lambda>c. 1::nat) (filter (\<lambda>c. c \<in> set RU_CHARS) text))
      in if en_count \<ge> ru_count then ''en'' else ''ru'')"

definition convert_text :: "ustring \<Rightarrow> ustring" where
  "convert_text text =
     (let layout = detect_layout text
      in if layout = ''en'' then translate EN_TO_RU text else translate RU_TO_EN text)"

text \<open>
  The table of the alphabet a layout name stands for, and the table of the other one.
  They are not in the source; the statements about \<open>convert_text\<close> are written with them.
\<close>

definition layout_table :: "string \<Rightarrow> ustring" where
  "layout_table layout = (if layout = ''en'' then EN_CHARS else RU_CHARS)"

definition other_table :: "string \<Rightarrow> ustring" where
  "other_table layout = (if layout = ''en'' then RU_CHARS else EN_CHARS)"

section \<open>The operating system as seen by one conversion attempt\<close>

text \<open>
  One \<^verbatim>\<open>INPUT\<close> structure of type \<^verbatim>\<open>INPUT_KEYBOARD\<close>; the fields \<^verbatim>\<open>time\<close> and
  \<^verbatim>\<open>dwExtraInfo\<close> are always 0 and \<^verbatim>\<open>None\<close> in the source.
\<close>

datatype INPUT = INPUT (wVk: nat) (wScan: nat) (dwFlags: nat)

text \<open>
  Every call into the operating system, with the arguments that matter, in the order
  the program makes them. \<open>Sleep\<close> is \<^verbatim>\<open>time.sleep\<close>, its argument in milliseconds
  (\<^verbatim>\<open>time.sleep(0.05)\<close> is \<open>Sleep 50\<close>). \<open>MemMove\<close> is the \<^verbatim>\<open>ctypes.memmove\<close> of the
  encoded text into the clipboard memory.
\<close>

datatype event =
    Sleep nat
  | SendInput "INPUT list"
  | GetForegroundWindow
  | GetClassNameW nat
  | PostMessageW nat nat nat nat
  | OpenClipboard
  | EmptyClipboard
  | CloseClipboard
  | GetClipboardData
  | GlobalAlloc nat
  | GlobalLock
  | GlobalUnlock
  | MemMove ustring
  | SetClipboardData
  | GetWindowThreadProcessId nat
  | FreeConsole
  | AttachConsole nat
  | GetStdHandle
  | GetConsoleScreenBufferInfo
  | ReadConsoleOutputCharacterW nat nat

text \<open>
  What one call of \<^verbatim>\<open>get_clipboard_text\<close> meets: \<^verbatim>\<open>OpenClipboard\<close> fails, the
  clipboard holds no Unicode text, \<^verbatim>\<open>GlobalLock\<close> fails, or \<^verbatim>\<open>wstring_at\<close> reads a text.
\<close>

datatype clip_read = ReadOpenFails | ReadNoData | ReadLockFails | ReadText ustring

text \<open>What one call of \<^verbatim>\<open>set_clipboard_text\<close> meets.\<close>

datatype clip_write = WriteOpenFails | WriteAllocFails | WriteLockFails | WriteOk

text \<open>
  The world of one attempt: the calls made so far, and what the operating system
  answers. Answers that may change from one call to the next are lists, consumed one
  per call: \<open>foreground\<close> for \<^verbatim>\<open>GetForegroundWindow\<close> (no window, 0, once the list is
  used up) and \<open>clipboard_reads\<close> for \<^verbatim>\<open>get_clipboard_text\<close> (the clipboard cannot be
  opened once it is used up). Calls made at most once in an attempt have one answer.
  \<open>window_class h\<close> is the class name of window \<open>h\<close>, \<open>None\<close> when \<open>h\<close> is null or not
  a window, so that \<^verbatim>\<open>GetClassNameW\<close> fails and leaves the zeroed buffer untouched.
  \<open>console_info\<close> is the cursor position (column, row) that
  \<^verbatim>\<open>GetConsoleScreenBufferInfo\<close> reports, \<open>None\<close> when it fails; \<open>console_row y\<close> are the
  characters of screen row \<open>y\<close> from column 0. Cursor coordinates are positions in the
  screen buffer, hence not negative, and \<open>console_handle\<close> is what \<^verbatim>\<open>GetStdHandle\<close>
  returns (0 and -1 are the invalid handles).
\<close>

record world =
  events :: "event list"
  foreground :: "nat list"
  window_class :: "nat \<Rightarrow> ustring option"
  window_pid :: "nat \<Rightarrow> nat"
  sendinput_accepted :: "INPUT list \<Rightarrow> nat"
  clipboard_clear_opens :: bool
  clipboard_reads :: "clip_read list"
  clipboard_write :: clip_write
  console_attach :: bool
  console_handle :: int
  console_info :: "(nat \<times> nat) option"
  console_row :: "nat \<Rightarrow> ustring"

definition emit :: "event list \<Rightarrow> world \<Rightarrow> world" where
  "emit es w = w\<lparr>events := events w @ es\<rparr>"

definition sleep :: "nat \<Rightarrow> world \<Rightarrow> world" where
  "sleep ms w = emit [Sleep ms] w"

text \<open>A string written with ASCII characters, as the list of its code points.\<close>

definition ustr :: "string \<Rightarrow> ustring" where
  "ustr s = map of_char s"

text \<open>Python's \<^verbatim>\<open>not x\<close> for an optional string: \<^verbatim>\<open>None\<close> and the empty string are false.\<close>

definition py_not :: "ustring option \<Rightarrow> bool" where
  "py_not x = (case x of None \<Rightarrow> True | Some t \<Rightarrow> t = [])"

text \<open>
  \<^verbatim>\<open>str.isspace\<close> for one character, which \<^verbatim>\<open>strip\<close>, \<^verbatim>\<open>rstrip\<close> and \<^verbatim>\<open>split\<close> without
  argument use: the Unicode white space characters and the separators U+001C..U+001F.
\<close>

definition isspace :: "nat \<Rightarrow> bool" where
  "isspace c =
     ((9 \<le> c \<and> c \<le> 13) \<or> (28 \<le> c \<and> c \<le> 32) \<or> c = 133 \<or> c = 160 \<or> c = 5760
      \<or> (8192 \<le> c \<and> c \<le> 8202) \<or> c = 8232 \<or> c = 8233 \<or> c = 8239 \<or> c = 8287
      \<or> c = 12288)"

definition rstrip :: "ustring \<Rightarrow> ustring" where
  "rstrip s = rev (dropWhile isspace (rev s))"

definition strip :: "ustring \<Rightarrow> ustring" where
  "strip s = dropWhile isspace (rstrip s)"

text \<open>
  \<^verbatim>\<open>s.split()\<close>: the maximal runs of characters that are not white space. The first
  argument is the run being read.
\<close>

fun split_run :: "ustring \<Rightarrow> ustring \<Rightarrow> ustring list" where
  "split_run cur [] = (if cur = [] then [] else [cur])"
| "split_run cur (c # cs) =
     (if isspace c
      then (if cur = [] then split_run [] cs else cur # split_run [] cs)
      else split_run (cur @ [c]) cs)"

definition py_split :: "ustring \<Rightarrow> ustring list" where
  "py_split s = split_run [] s"

section \<open>Window class\<close>

text \<open>
  \<^verbatim>\<open>GetClassNameW(hwnd, class_name, 256)\<close> copies at most 255 characters into the zeroed
  buffer.
\<close>

definition get_window_class :: "nat \<Rightarrow> world \<Rightarrow> ustring \<times> world" where
  "get_window_class hwnd w =
     (case window_class w hwnd of
        None \<Rightarrow> ([], emit [GetClassNameW hwnd] w)
      | Some cn \<Rightarrow> (take 255 cn, emit [GetClassNameW hwnd] w))"

definition console_classes :: "ustring list" where
  "console_classes =
     [ustr ''ConsoleWindowClass'', ustr ''CASCADIA_HOSTING_WINDOW_CLASS'',
      ustr ''PseudoConsoleWindow'']"

definition is_console_window :: "nat \<Rightarrow> world \<Rightarrow> bool \<times> world" where
  "is_console_window hwnd w =
     (let (cn, w) = get_window_class hwnd w in (cn \<in> set console_classes, w))"

definition is_classic_console :: "nat \<Rightarrow> world \<Rightarrow> bool \<times> world" where
  "is_classic_console hwnd w =
     (let (cn, w) = get_window_class hwnd w in (cn = ustr ''ConsoleWindowClass'', w))"

text \<open>The answer the next \<^verbatim>\<open>GetForegroundWindow\<close> call gets.\<close>

definition next_foreground :: "world \<Rightarrow> nat" where
  "next_foreground w = (case foreground w of [] \<Rightarrow> 0 | h # hs \<Rightarrow> h)"

definition get_foreground_hwnd :: "world \<Rightarrow> nat \<times> world" where
  "get_foreground_hwnd w =
     (next_foreground w, emit [GetForegroundWindow] (w\<lparr>foreground := tl (foreground w)\<rparr>))"

section \<open>Synthetic input driver\<close>

abbreviation (input) KEYEVENTF_EXTENDEDKEY :: nat where "KEYEVENTF_EXTENDEDKEY \<equiv> 0x0001"
abbreviation (input) KEYEVENTF_KEYUP :: nat where "KEYEVENTF_KEYUP \<equiv> 0x0002"
abbreviation (input) KEYEVENTF_UNICODE :: nat where "KEYEVENTF_UNICODE \<equiv> 0x0004"

abbreviation (input) VK_BACKSPACE :: nat where "VK_BACKSPACE \<equiv> 0x08"
abbreviation (input) VK_SHIFT :: nat where "VK_SHIFT \<equiv> 0x10"
abbreviation (input) VK_CONTROL :: nat where "VK_CONTROL \<equiv> 0x11"
abbreviation (input) VK_END :: nat where "VK_END \<equiv> 0x23"
abbreviation (input) VK_LEFT :: nat where "VK_LEFT \<equiv> 0x25"
abbreviation (input) VK_INSERT :: nat where "VK_INSERT \<equiv> 0x2D"
abbreviation (input) VK_C :: nat where "VK_C \<equiv> 0x43"
abbreviation (input) VK_V :: nat where "VK_V \<equiv> 0x56"

abbreviation (input) WM_INPUTLANGCHANGEREQUEST :: nat where "WM_INPUTLANGCHANGEREQUEST \<equiv> 0x0050"
abbreviation (input) HKL_EN :: nat where "HKL_EN \<equiv> 0x04090409"
abbreviation (input) HKL_RU :: nat where "HKL_RU \<equiv> 0x04190419"

definition scan_codes :: "nat \<rightharpoonup> nat" where
  "scan_codes =
     map_of [(0x11, 0x1D), (0x10, 0x2A), (0x25, 0x4B), (0x43, 0x2E), (0x56, 0x2F),
             (0x58, 0x2D), (0x2D, 0x52)]"

text \<open>
  \<^verbatim>\<open>send_input_keys\<close>: one \<^verbatim>\<open>SendInput\<close> call for the whole batch; the result says
  whether the operating system accepted every event.
\<close>

definition send_input_keys :: "(nat \<times> nat) list \<Rightarrow> world \<Rightarrow> bool \<times> world" where
  "send_input_keys keys w =
     (let n = length keys;
          inputs = map (\<lambda>(vk, flags).
                     INPUT vk (case scan_codes vk of Some sc \<Rightarrow> sc | None \<Rightarrow> 0) flags) keys;
          result = sendinput_accepted w inputs
      in (result = n, emit [SendInput inputs] w))"

definition send_key_press :: "nat \<Rightarrow> world \<Rightarrow> bool \<times> world" where
  "send_key_press vk w = send_input_keys [(vk, 0), (vk, KEYEVENTF_KEYUP)] w"

definition extended_keys :: "nat set" where
  "extended_keys = {0x25, 0x26, 0x27, 0x28, 0x2D, 0x2E, 0x24, 0x23, 0x21, 0x22}"

definition send_two_modifier_combo :: "nat \<Rightarrow> nat \<Rightarrow> nat \<Rightarrow> world \<Rightarrow> bool \<times> world" where
  "send_two_modifier_combo mod1_vk mod2_vk key_vk w =
     (let key_flags = (if key_vk \<in> extended_keys then KEYEVENTF_EXTENDEDKEY else 0)
      in send_input_keys
           [(mod1_vk, 0), (mod2_vk, 0), (key_vk, key_flags),
            (key_vk, key_flags OR KEYEVENTF_KEYUP), (mod2_vk, KEYEVENTF_KEYUP),
            (mod1_vk, KEYEVENTF_KEYUP)] w)"

definition send_key_combo :: "nat \<Rightarrow> nat \<Rightarrow> world \<Rightarrow> bool \<times> world" where
  "send_key_combo modifier_vk key_vk w =
     send_input_keys
       [(modifier_vk, 0), (key_vk, 0), (key_vk, KEYEVENTF_KEYUP),
        (modifier_vk, KEYEVENTF_KEYUP)] w"

definition send_ctrl_key :: "nat \<Rightarrow> world \<Rightarrow> bool \<times> world" where
  "send_ctrl_key key_vk w = send_key_combo VK_CONTROL key_vk w"

text \<open>
  \<^verbatim>\<open>type_text\<close>: per character one \<^verbatim>\<open>SendInput\<close> of a key-down and a key-up event
  carrying the code point in \<^verbatim>\<open>wScan\<close>, then a sleep of 10 ms. \<^verbatim>\<open>wScan\<close> is a
  16-bit field, and ctypes keeps the low 16 bits of the value stored into it.
\<close>

definition unicode_inputs :: "nat \<Rightarrow> INPUT list" where
  "unicode_inputs c =
     [INPUT 0 (c mod 65536) KEYEVENTF_UNICODE,
      INPUT 0 (c mod 65536) (KEYEVENTF_UNICODE OR KEYEVENTF_KEYUP)]"

fun type_text :: "ustring \<Rightarrow> world \<Rightarrow> world" where
  "type_text [] w = w"
| "type_text (c # cs) w = type_text cs (sleep 10 (emit [SendInput (unicode_inputs c)] w))"

definition switch_keyboard_layout :: "string \<Rightarrow> world \<Rightarrow> world" where
  "switch_keyboard_layout to_lang w =
     (let hkl = (if to_lang = ''en'' then HKL_EN else HKL_RU);
          (hwnd, w) = get_foreground_hwnd w
      in if hwnd \<noteq> 0 then emit [PostMessageW hwnd WM_INPUTLANGCHANGEREQUEST 0 hkl] w else w)"

section \<open>Clipboard mediator\<close>

text \<open>What the next \<^verbatim>\<open>get_clipboard_text\<close> call meets.\<close>

definition next_clipboard_read :: "world \<Rightarrow> clip_read" where
  "next_clipboard_read w = (case clipboard_reads w of [] \<Rightarrow> ReadOpenFails | r # rs \<Rightarrow> r)"

definition get_clipboard_text :: "world \<Rightarrow> ustring option \<times> world" where
  "get_clipboard_text w =
     (let r = next_clipboard_read w;
          w = w\<lparr>clipboard_reads := tl (clipboard_reads w)\<rparr>
      in case r of
           ReadOpenFails \<Rightarrow> (None, emit [OpenClipboard] w)
         | ReadNoData \<Rightarrow> (None, emit [OpenClipboard, GetClipboardData, CloseClipboard] w)
         | ReadLockFails \<Rightarrow>
             (None, emit [OpenClipboard, GetClipboardData, GlobalLock, CloseClipboard] w)
         | ReadText t \<Rightarrow>
             (Some t,
              emit [OpenClipboard, GetClipboardData, GlobalLock, GlobalUnlock,
                    CloseClipboard] w))"

text \<open>
  \<^verbatim>\<open>(text + '\0').encode('utf-16-le')\<close> raises \<^verbatim>\<open>UnicodeEncodeError\<close> on a surrogate code
  point (U+D800..U+DFFF); a code point above U+FFFF takes two 16-bit units.
\<close>

datatype py_error = UnicodeEncodeError

definition utf16_encodable :: "ustring \<Rightarrow> bool" where
  "utf16_encodable s = list_all (\<lambda>c. \<not> (0xD800 \<le> c \<and> c \<le> 0xDFFF)) s"

definition utf16_bytes :: "ustring \<Rightarrow> nat" where
  "utf16_bytes s = 2 * sum_list (map (\<lambda>c. if c > 0xFFFF then 2 else 1::nat) s)"

definition set_clipboard_text :: "ustring \<Rightarrow> world \<Rightarrow> (py_error + bool) \<times> world" where
  "set_clipboard_text text w =
     (if \<not> utf16_encodable text then (Inl UnicodeEncodeError, w)
      else
        let n = utf16_bytes (text @ [0])
        in case clipboard_write w of
             WriteOpenFails \<Rightarrow> (Inr False, emit [OpenClipboard] w)
           | WriteAllocFails \<Rightarrow>
               (Inr False,
                emit [OpenClipboard, EmptyClipboard, GlobalAlloc n, CloseClipboard] w)
           | WriteLockFails \<Rightarrow>
               (Inr False,
                emit [OpenClipboard, EmptyClipboard, GlobalAlloc n, GlobalLock,
                      CloseClipboard] w)
           | WriteOk \<Rightarrow>
               (Inr True,
                emit [OpenClipboard, EmptyClipboard, GlobalAlloc n, GlobalLock, MemMove text,
                      GlobalUnlock, SetClipboardData, CloseClipboard] w))"

definition clear_clipboard :: "world \<Rightarrow> world" where
  "clear_clipboard w =
     (if clipboard_clear_opens w then emit [OpenClipboard, EmptyClipboard, CloseClipboard] w
      else emit [OpenClipboard] w)"

section \<open>Reading the last word of a legacy console\<close>

text \<open>
  \<^verbatim>\<open>ReadConsoleOutputCharacterW\<close> delivers at most \<open>cursor_x\<close> characters of the row;
  \<^verbatim>\<open>buffer.value\<close> ends at the first NUL character.
\<close>

definition get_console_last_word :: "nat \<Rightarrow> world \<Rightarrow> ustring option \<times> world" where
  "get_console_last_word hwnd w =
     (let pid = window_pid w hwnd;
          w = emit [GetWindowThreadProcessId hwnd] w;
          w = emit [FreeConsole] w;
          w = emit [AttachConsole pid] w
      in if \<not> console_attach w then (None, w)
         else
           let h_console = console_handle w;
               w = emit [GetStdHandle] w
           in if h_console = 0 \<or> h_console = - 1 then (None, emit [FreeConsole] w)
              else
                let w = emit [GetConsoleScreenBufferInfo] w
                in case console_info w of
                     None \<Rightarrow> (None, w)
                   | Some (cursor_x, cursor_y) \<Rightarrow>
                       if cursor_x = 0 then (None, w)
                       else
                         let buffer_size = cursor_x;
                             buffer = take buffer_size (console_row w cursor_y);
                             chars_read = length buffer;
                             w = emit [ReadConsoleOutputCharacterW buffer_size cursor_y] w;
                             line = take chars_read (takeWhile (\<lambda>c. c \<noteq> 0) buffer);
                             w = emit [FreeConsole] w;
                             line = rstrip line
                         in if line = [] then (None, w)
                            else
                              let words = py_split line
                              in if words \<noteq> [] then (Some (last words), w)
                                 else (None, w))"

section \<open>Conversion paths\<close>

text \<open>The loop \<^verbatim>\<open>for _ in range(len(word))\<close> that deletes the old word.\<close>

primrec backspaces :: "nat \<Rightarrow> world \<Rightarrow> world" where
  "backspaces 0 w = w"
| "backspaces (Suc n) w = backspaces n (sleep 10 (snd (send_key_press VK_BACKSPACE w)))"

definition opposite_layout :: "string \<Rightarrow> string" where
  "opposite_layout source_layout = (if source_layout = ''en'' then ''ru'' else ''en'')"

text \<open>
  \<^verbatim>\<open>convert_in_terminal\<close> up to the second \<^verbatim>\<open>if not word\<close>: \<open>None\<close> when either test
  returns \<^verbatim>\<open>False\<close>, the stripped word otherwise.
\<close>

definition terminal_acquire :: "world \<Rightarrow> ustring option \<times> world" where
  "terminal_acquire w =
     (let w = sleep 100 w;
          w = clear_clipboard w;
          w = snd (send_two_modifier_combo VK_CONTROL VK_SHIFT VK_C w);
          w = sleep 200 w;
          (word, w) = get_clipboard_text w
      in if py_not word then (None, w)
         else
           let word = map_option strip word
           in if py_not word then (None, w) else (word, w))"

definition convert_in_terminal :: "nat \<Rightarrow> world \<Rightarrow> bool \<times> world" where
  "convert_in_terminal hwnd w =
     (let (acquired, w) = terminal_acquire w
      in case acquired of
           None \<Rightarrow> (False, w)
         | Some word \<Rightarrow>
             let source_layout = detect_layout word;
                 converted = convert_text word
             in if converted = word then (False, w)
                else
                  let target_layout = opposite_layout source_layout;
                      w = snd (send_key_press VK_END w);
                      w = sleep 30 w;
                      w = backspaces (length word) w;
                      w = sleep 50 w;
                      w = type_text converted w;
                      w = sleep 50 w;
                      w = switch_keyboard_layout target_layout w
                  in (True, w))"

definition convert_in_console :: "nat \<Rightarrow> world \<Rightarrow> bool \<times> world" where
  "convert_in_console hwnd w =
     (let w = sleep 100 w;
          (word, w) = get_console_last_word hwnd w
      in if py_not word then (False, w)
         else
           case word of
             None \<Rightarrow> (False, w)
           | Some word \<Rightarrow>
               let source_layout = detect_layout word;
                   converted = convert_text word
               in if converted = word then (False, w)
                  else
                    let target_layout = opposite_layout source_layout;
                        w = backspaces (length word) w;
                        w = sleep 50 w;
                        w = type_text converted w;
                        w = sleep 50 w;
                        w = switch_keyboard_layout target_layout w
                    in (True, w))"

text \<open>
  The regular application mode of \<^verbatim>\<open>convert_selected_text\<close>, in two parts: from the
  first sleep to the value of \<^verbatim>\<open>selected_text\<close> after the fallback, and the rest.
\<close>

definition plain_acquire :: "world \<Rightarrow> ustring option \<times> world" where
  "plain_acquire w =
     (let w = sleep 50 w;
          w = clear_clipboard w;
          w = snd (send_ctrl_key VK_INSERT w);
          w = sleep 80 w;
          (selected_text, w) = get_clipboard_text w
      in if py_not selected_text
         then
           let w = snd (send_two_modifier_combo VK_CONTROL VK_SHIFT VK_LEFT w);
               w = sleep 30 w;
               w = snd (send_ctrl_key VK_INSERT w);
               w = sleep 50 w
           in get_clipboard_text w
         else (selected_text, w))"

definition convert_plain :: "world \<Rightarrow> (py_error + bool) \<times> world" where
  "convert_plain w =
     (let (selected_text, w) = plain_acquire w
      in if py_not selected_text then (Inr False, w)
         else
           case selected_text of
             None \<Rightarrow> (Inr False, w)
           | Some selected_text \<Rightarrow>
               let source_layout = detect_layout selected_text;
                   converted = convert_text selected_text
               in if converted = selected_text then (Inr False, w)
                  else
                    let target_layout = opposite_layout source_layout;
                        (written, w) = set_clipboard_text converted w
                    in case written of
                         Inl e \<Rightarrow> (Inl e, w)
                       | Inr ok \<Rightarrow>
                           if \<not> ok then (Inr False, w)
                           else
                             let w = snd (send_ctrl_key VK_V w);
                                 w = sleep 20 w;
                                 w = switch_keyboard_layout target_layout w
                             in (Inr True, w))"

definition convert_selected_text :: "world \<Rightarrow> (py_error + bool) \<times> world" where
  "convert_selected_text w =
     (let (hwnd, w) = get_foreground_hwnd w;
          (console, w) = is_console_window hwnd w
      in if console
         then
           let (classic, w) = is_classic_console hwnd w
           in if classic
              then (let (r, w) = convert_in_console hwnd w in (Inr r, w))
              else (let (r, w) = convert_in_terminal hwnd w in (Inr r, w))
         else convert_plain w)"

text \<open>
  The window categories of the specification, read off the two tests with which
  \<^verbatim>\<open>convert_selected_text\<close> chooses its path.
\<close>

datatype WindowCategory = Plain | LegacyConsole | ModernTerminal

definition classify :: "nat \<Rightarrow> world \<Rightarrow> WindowCategory \<times> world" where
  "classify hwnd w =
     (let (console, w) = is_console_window hwnd w
      in if console
         then
           let (classic, w) = is_classic_console hwnd w
           in if classic then (LegacyConsole, w) else (ModernTerminal, w)
         else (Plain, w))"

section \<open>Reading a trace\<close>

text \<open>The text a clipboard read yields, and the batches of synthetic input in a trace.\<close>

definition read_result :: "clip_read \<Rightarrow> ustring option" where
  "read_result r = (case r of ReadText t \<Rightarrow> Some t | _ \<Rightarrow> None)"

text \<open>The calls one \<^verbatim>\<open>get_clipboard_text\<close> makes, by what it meets.\<close>

definition clipboard_read_calls :: "clip_read \<Rightarrow> event list" where
  "clipboard_read_calls r =
     (case r of
        ReadOpenFails \<Rightarrow> [OpenClipboard]
      | ReadNoData \<Rightarrow> [OpenClipboard, GetClipboardData, CloseClipboard]
      | ReadLockFails \<Rightarrow> [OpenClipboard, GetClipboardData, GlobalLock, CloseClipboard]
      | ReadText t \<Rightarrow>
          [OpenClipboard, GetClipboardData, GlobalLock, GlobalUnlock, CloseClipboard])"

definition key_batches :: "event list \<Rightarrow> INPUT list list" where
  "key_batches es = concat (map (\<lambda>e. case e of SendInput ins \<Rightarrow> [ins] | _ \<Rightarrow> []) es)"

section \<open>Example worlds\<close>

text \<open>
  A desktop whose only window has handle 1, the given class name and process 7; the
  clipboard reads are as given, every other call succeeds and every batch of synthetic
  input is accepted whole. The console of the window has no readable screen buffer.
\<close>

definition desktop :: "ustring \<Rightarrow> clip_read list \<Rightarrow> world" where
  "desktop cls reads =
     \<lparr>events = [], foreground = [1, 1],
      window_class = (\<lambda>h. if h = 1 then Some cls else None),
      window_pid = (\<lambda>h. 7), sendinput_accepted = length,
      clipboard_clear_opens = True, clipboard_reads = reads, clipboard_write = WriteOk,
      console_attach = True, console_handle = 3, console_info = None,
      console_row = (\<lambda>y. [])\<rparr>"

text \<open>
  The same desktop with a legacy console window whose screen buffer reports the given
  cursor position and holds the given text in every row.
\<close>

definition console_desktop :: "(nat \<times> nat) option \<Rightarrow> ustring \<Rightarrow> world" where
  "console_desktop info row =
     (desktop (ustr ''ConsoleWindowClass'') [])
       \<lparr>console_info := info, console_row := (\<lambda>y. row)\<rparr>"

section \<open>Properties of the layout mapper\<close>

lemma fold_upd_map_of:
  "distinct (map fst ps) \<Longrightarrow> fold (\<lambda>(k, v) m. m(k \<mapsto> v)) ps m0 = m0 ++ map_of ps"
proof (induction ps arbitrary: m0)
  case Nil
  then show ?case by simp
next
  case (Cons p ps)
  obtain k v where p: "p = (k, v)" by (cases p)
  from Cons.prems p have nk: "k \<notin> fst ` set ps" and d: "distinct (map fst ps)" by auto
  let ?F = "\<lambda>(k, v) m. m(k \<mapsto> v)"
  have "fold ?F (p # ps) m0 = fold ?F ps (?F p m0)"
    by (rule fold_simps(2))
  also have "?F p m0 = m0(k \<mapsto> v)"
    unfolding p by (simp only: prod.case)
  also have "fold ?F ps (m0(k \<mapsto> v)) = (m0(k \<mapsto> v)) ++ map_of ps"
    by (rule Cons.IH [OF d])
  also have "\<dots> = m0 ++ map_of (p # ps)"
  proof (rule ext)
    fix x
    from nk have none: "map_of ps k = None"
      by (simp add: map_of_eq_None_iff)
    show "((m0(k \<mapsto> v)) ++ map_of ps) x = (m0 ++ map_of (p # ps)) x"
    proof (cases "x = k")
      case True
      then show ?thesis by (simp add: p map_add_def none)
    next
      case False
      then show ?thesis by (simp add: p map_add_def split: option.splits)
    qed
  qed
  finally show ?case .
qed

lemma length_EN: "length EN_CHARS = 73" by (simp add: EN_CHARS_def)
lemma length_RU: "length RU_CHARS = 73" by (simp add: RU_CHARS_def)
lemma distinct_EN: "distinct EN_CHARS" by (simp add: EN_CHARS_def)
lemma distinct_RU: "distinct RU_CHARS" by (simp add: RU_CHARS_def)

lemma EN_TO_RU_map_of: "EN_TO_RU = map_of (zip EN_CHARS RU_CHARS)"
  by (simp add: EN_TO_RU_def maketrans_def length_EN length_RU fold_upd_map_of distinct_EN)

lemma RU_TO_EN_map_of: "RU_TO_EN = map_of (zip RU_CHARS EN_CHARS)"
  by (simp add: RU_TO_EN_def maketrans_def length_EN length_RU fold_upd_map_of distinct_RU)

lemma shared: "set EN_CHARS \<inter> set RU_CHARS = {46, 44, 59, 58, 63, 34}"
  by (auto simp add: EN_CHARS_def RU_CHARS_def)

lemma count_ones: "sum_list (map (\<lambda>c. 1::nat) xs) = length xs"
  by (induction xs) simp_all

lemma detect_layout_filter:
  "detect_layout s =
     (if length (filter (\<lambda>c. c \<in> set RU_CHARS) s) \<le> length (filter (\<lambda>c. c \<in> set EN_CHARS) s)
      then ''en'' else ''ru'')"
  by (simp only: detect_layout_def Let_def count_ones)

lemma detect_layout_cases: "detect_layout s = ''en'' \<or> detect_layout s = ''ru''"
  by (simp add: detect_layout_filter)

lemma EN_TO_RU_nth: "i < 73 \<Longrightarrow> EN_TO_RU (EN_CHARS ! i) = Some (RU_CHARS ! i)"
  by (simp add: EN_TO_RU_map_of map_of_zip_nth length_EN length_RU distinct_EN)

lemma RU_TO_EN_nth: "i < 73 \<Longrightarrow> RU_TO_EN (RU_CHARS ! i) = Some (EN_CHARS ! i)"
  by (simp add: RU_TO_EN_map_of map_of_zip_nth length_EN length_RU distinct_RU)

lemma fst_set_zip: "length xs = length ys \<Longrightarrow> fst ` set (zip xs ys) = set xs"
proof -
  assume "length xs = length ys"
  then have "map fst (zip xs ys) = xs" by (rule map_fst_zip)
  then have "set (map fst (zip xs ys)) = set xs" by simp
  then show ?thesis by (simp only: set_map)
qed

lemma EN_TO_RU_None: "c \<notin> set EN_CHARS \<Longrightarrow> EN_TO_RU c = None"
  by (simp add: EN_TO_RU_map_of map_of_eq_None_iff fst_set_zip length_EN length_RU)

lemma RU_TO_EN_None: "c \<notin> set RU_CHARS \<Longrightarrow> RU_TO_EN c = None"
  by (simp add: RU_TO_EN_map_of map_of_eq_None_iff fst_set_zip length_EN length_RU)

lemma EN_TO_RU_inv:
  assumes "c \<in> set EN_CHARS"
  shows "\<exists>d. EN_TO_RU c = Some d \<and> d \<in> set RU_CHARS \<and> RU_TO_EN d = Some c"
proof -
  from assms obtain i where i: "i < 73" "EN_CHARS ! i = c"
    by (auto simp: in_set_conv_nth length_EN)
  have "EN_TO_RU c = Some (RU_CHARS ! i)" using EN_TO_RU_nth [OF i(1)] i(2) by simp
  moreover have "RU_CHARS ! i \<in> set RU_CHARS" using i(1) by (simp add: length_RU)
  moreover have "RU_TO_EN (RU_CHARS ! i) = Some c" using RU_TO_EN_nth [OF i(1)] i(2) by simp
  ultimately show ?thesis by blast
qed

lemma RU_TO_EN_inv:
  assumes "c \<in> set RU_CHARS"
  shows "\<exists>d. RU_TO_EN c = Some d \<and> d \<in> set EN_CHARS \<and> EN_TO_RU d = Some c"
proof -
  from assms obtain i where i: "i < 73" "RU_CHARS ! i = c"
    by (auto simp: in_set_conv_nth length_RU)
  have "RU_TO_EN c = Some (EN_CHARS ! i)" using RU_TO_EN_nth [OF i(1)] i(2) by simp
  moreover have "EN_CHARS ! i \<in> set EN_CHARS" using i(1) by (simp add: length_EN)
  moreover have "EN_TO_RU (EN_CHARS ! i) = Some c" using EN_TO_RU_nth [OF i(1)] i(2) by simp
  ultimately show ?thesis by blast
qed

lemma translate_EN_RU_EN:
  "\<forall>c\<in>set s. c \<in> set EN_CHARS \<Longrightarrow> translate RU_TO_EN (translate EN_TO_RU s) = s"
proof (induction s)
  case Nil
  then show ?case by (simp add: translate_def)
next
  case (Cons c s)
  from Cons.prems have "c \<in> set EN_CHARS" by simp
  from EN_TO_RU_inv [OF this] obtain d where "EN_TO_RU c = Some d" "RU_TO_EN d = Some c"
    by blast
  with Cons show ?case by (simp add: translate_def)
qed

lemma translate_RU_EN_RU:
  "\<forall>c\<in>set s. c \<in> set RU_CHARS \<Longrightarrow> translate EN_TO_RU (translate RU_TO_EN s) = s"
proof (induction s)
  case Nil
  then show ?case by (simp add: translate_def)
next
  case (Cons c s)
  from Cons.prems have "c \<in> set RU_CHARS" by simp
  from RU_TO_EN_inv [OF this] obtain d where "RU_TO_EN c = Some d" "EN_TO_RU d = Some c"
    by blast
  with Cons show ?case by (simp add: translate_def)
qed

lemma translate_RU_in_EN:
  "\<forall>c\<in>set s. c \<in> set RU_CHARS \<Longrightarrow> \<forall>c\<in>set (translate RU_TO_EN s). c \<in> set EN_CHARS"
proof (induction s)
  case Nil
  then show ?case by (simp add: translate_def)
next
  case (Cons c s)
  from Cons.prems have "c \<in> set RU_CHARS" by simp
  from RU_TO_EN_inv [OF this] obtain d where "RU_TO_EN c = Some d" "d \<in> set EN_CHARS"
    by blast
  with Cons show ?case by (simp add: translate_def)
qed

lemma detect_pure_EN: "\<forall>c\<in>set s. c \<in> set EN_CHARS \<Longrightarrow> detect_layout s = ''en''"
  by (simp add: detect_layout_filter)

lemma detect_en_pure_RU:
  assumes "\<forall>c\<in>set s. c \<in> set RU_CHARS" and "detect_layout s = ''en''"
  shows "\<forall>c\<in>set s. c \<in> set EN_CHARS"
proof (rule ccontr)
  assume "\<not> (\<forall>c\<in>set s. c \<in> set EN_CHARS)"
  then obtain c where "c \<in> set s" "c \<notin> set EN_CHARS" by blast
  then have "length (filter (\<lambda>c. c \<in> set EN_CHARS) s) < length s"
    by (rule length_filter_less)
  moreover have "filter (\<lambda>c. c \<in> set RU_CHARS) s = s" using assms(1) by simp
  ultimately have "detect_layout s = ''ru''" by (simp add: detect_layout_filter)
  with assms(2) show False by simp
qed

lemma convert_pure_EN:
  "\<forall>c\<in>set s. c \<in> set EN_CHARS \<Longrightarrow> convert_text s = translate EN_TO_RU s"
  by (simp add: convert_text_def detect_pure_EN)

lemma roundtrip_pure_EN:
  assumes "\<forall>c\<in>set s. c \<in> set EN_CHARS" and "detect_layout (convert_text s) \<noteq> detect_layout s"
  shows "convert_text (convert_text s) = s"
proof -
  have c: "convert_text s = translate EN_TO_RU s" by (rule convert_pure_EN [OF assms(1)])
  have "detect_layout s = ''en''" by (rule detect_pure_EN [OF assms(1)])
  with assms(2) have "detect_layout (convert_text s) \<noteq> ''en''" by simp
  then have "convert_text (convert_text s) = translate RU_TO_EN (convert_text s)"
    by (simp add: convert_text_def [of "convert_text s"])
  then show ?thesis using translate_EN_RU_EN [OF assms(1)] c by simp
qed

subsection \<open>Round trip\<close>

text \<open>
  Claim C3, as amended. For every string \<open>s\<close> whose characters are all in \<^verbatim>\<open>EN_CHARS\<close>, or
  all in \<^verbatim>\<open>RU_CHARS\<close>, and for which \<^verbatim>\<open>detect_layout\<close> gives \<^verbatim>\<open>convert_text(s)\<close> the other
  alphabet than it gives \<open>s\<close>: \<^verbatim>\<open>convert_text(convert_text(s)) == s\<close>.
\<close>

theorem convert_text_roundtrip:
  assumes "(\<forall>c\<in>set s. c \<in> set EN_CHARS) \<or> (\<forall>c\<in>set s. c \<in> set RU_CHARS)"
    and "detect_layout (convert_text s) \<noteq> detect_layout s"
  shows "convert_text (convert_text s) = s"
proof (cases "\<forall>c\<in>set s. c \<in> set EN_CHARS")
  case True
  then show ?thesis using assms(2) by (rule roundtrip_pure_EN)
next
  case False
  with assms(1) have ru: "\<forall>c\<in>set s. c \<in> set RU_CHARS" by blast
  from False detect_en_pure_RU [OF ru] have "detect_layout s \<noteq> ''en''" by blast
  then have c: "convert_text s = translate RU_TO_EN s" by (simp add: convert_text_def)
  have "convert_text (translate RU_TO_EN s) = translate EN_TO_RU (translate RU_TO_EN s)"
    by (rule convert_pure_EN [OF translate_RU_in_EN [OF ru]])
  then show ?thesis using c translate_RU_EN_RU [OF ru] by simp
qed

lemmas ev = convert_text_def detect_layout_def EN_TO_RU_map_of RU_TO_EN_map_of translate_def EN_CHARS_def RU_CHARS_def

text \<open>
  Claim C3 as stated fails: the slash is in \<^verbatim>\<open>EN_CHARS\<close> only and converts to the full
  stop, which is in both tables, is detected as EN by the tie-break and converts on to
  U+044E. The question mark is in \<^verbatim>\<open>RU_CHARS\<close> too, and goes to the comma and then to
  U+0431.
\<close>

theorem convert_text_roundtrip_counterexample:
  "47 \<in> set EN_CHARS \<and> convert_text (convert_text [47]) = [1102] \<and> [1102] \<noteq> [47::nat]
   \<and> 63 \<in> set RU_CHARS \<and> convert_text (convert_text [63]) = [1073] \<and> [1073] \<noteq> [63::nat]"
  by (simp add: ev)

text \<open>The amended round trip at the string \<^verbatim>\<open>gh\<close>.\<close>

theorem convert_text_roundtrip_witness:
  "((\<forall>c\<in>set [103, 104]. c \<in> set EN_CHARS) \<or> (\<forall>c\<in>set [103, 104]. c \<in> set RU_CHARS))
   \<and> detect_layout (convert_text [103, 104]) \<noteq> detect_layout [103, 104]
   \<and> convert_text (convert_text [103, 104]) = [103, 104]"
  using convert_text_roundtrip [of "[103, 104]"] by (simp add: ev)

subsection \<open>Positional mapping\<close>

lemma tables_built:
  "maketrans EN_CHARS RU_CHARS = Some EN_TO_RU \<and> maketrans RU_CHARS EN_CHARS = Some RU_TO_EN"
  by (simp add: EN_TO_RU_def RU_TO_EN_def maketrans_def length_EN length_RU)

lemma translate_nth:
  "i < length s \<Longrightarrow> translate t s ! i = (case t (s ! i) of Some d \<Rightarrow> d | None \<Rightarrow> s ! i)"
  by (simp add: translate_def)

lemma convert_text_en:
  "detect_layout s = ''en'' \<Longrightarrow> convert_text s = translate EN_TO_RU s"
  by (simp add: convert_text_def)

lemma convert_text_ru:
  "detect_layout s = ''ru'' \<Longrightarrow> convert_text s = translate RU_TO_EN s"
  by (simp add: convert_text_def)

lemma length_convert_text: "length (convert_text s) = length s"
  by (simp add: convert_text_def translate_def)

lemma convert_text_nth_in:
  assumes "i < length s" and "j < length (layout_table (detect_layout s))"
    and "s ! i = layout_table (detect_layout s) ! j"
  shows "convert_text s ! i = other_table (detect_layout s) ! j"
proof -
  from assms(2) have j: "j < 73"
    by (simp add: layout_table_def length_EN length_RU split: if_splits)
  from detect_layout_cases [of s] show ?thesis
  proof
    assume en: "detect_layout s = ''en''"
    with assms(3) have "s ! i = EN_CHARS ! j" by (simp add: layout_table_def)
    then show ?thesis
      using en assms(1) EN_TO_RU_nth [OF j]
      by (simp add: convert_text_en translate_nth other_table_def)
  next
    assume ru: "detect_layout s = ''ru''"
    with assms(3) have "s ! i = RU_CHARS ! j" by (simp add: layout_table_def)
    then show ?thesis
      using ru assms(1) RU_TO_EN_nth [OF j]
      by (simp add: convert_text_ru translate_nth other_table_def)
  qed
qed

lemma convert_text_nth_out:
  assumes "i < length s" and "s ! i \<notin> set (layout_table (detect_layout s))"
  shows "convert_text s ! i = s ! i"
proof -
  from detect_layout_cases [of s] show ?thesis
  proof
    assume en: "detect_layout s = ''en''"
    with assms(2) have "EN_TO_RU (s ! i) = None" by (simp add: layout_table_def EN_TO_RU_None)
    then show ?thesis using en assms(1) by (simp add: convert_text_en translate_nth)
  next
    assume ru: "detect_layout s = ''ru''"
    with assms(2) have "RU_TO_EN (s ! i) = None" by (simp add: layout_table_def RU_TO_EN_None)
    then show ?thesis using ru assms(1) by (simp add: convert_text_ru translate_nth)
  qed
qed

lemma detect_pure_RU:
  assumes "\<forall>c\<in>set s. c \<in> set RU_CHARS" and "\<exists>c\<in>set s. c \<notin> set EN_CHARS"
  shows "detect_layout s = ''ru''"
  using detect_en_pure_RU [OF assms(1)] assms(2) detect_layout_cases [of s] by blast

text \<open>
  Claim C4, as amended. For every string \<open>s\<close>, \<^verbatim>\<open>convert_text(s)\<close> has the length of \<open>s\<close>;
  a character of \<open>s\<close> that is the \<open>j\<close>-th character of the table of the alphabet
  \<^verbatim>\<open>detect_layout(s)\<close> returns becomes the \<open>j\<close>-th character of the other table, and a
  character that is not in the detected alphabet's table is unchanged at its
  position. The detected alphabet is EN when every character of \<open>s\<close> is in \<^verbatim>\<open>EN_CHARS\<close>,
  and RU when every character of \<open>s\<close> is in \<^verbatim>\<open>RU_CHARS\<close> and one of them is not in
  \<^verbatim>\<open>EN_CHARS\<close>. \<open>convert_text\<close> is a function of its argument alone, defined on every
  string, and the two translation tables it uses are built without error.
\<close>

theorem convert_text_positional:
  "length (convert_text s) = length s
   \<and> (\<forall>i<length s.
        (\<forall>j<length (layout_table (detect_layout s)).
           s ! i = layout_table (detect_layout s) ! j
           \<longrightarrow> convert_text s ! i = other_table (detect_layout s) ! j)
        \<and> (s ! i \<notin> set (layout_table (detect_layout s)) \<longrightarrow> convert_text s ! i = s ! i))
   \<and> ((\<forall>c\<in>set s. c \<in> set EN_CHARS) \<longrightarrow> detect_layout s = ''en'')
   \<and> ((\<forall>c\<in>set s. c \<in> set RU_CHARS) \<and> (\<exists>c\<in>set s. c \<notin> set EN_CHARS)
        \<longrightarrow> detect_layout s = ''ru'')
   \<and> maketrans EN_CHARS RU_CHARS \<noteq> None \<and> maketrans RU_CHARS EN_CHARS \<noteq> None"
  using length_convert_text convert_text_nth_in convert_text_nth_out detect_pure_EN
    detect_pure_RU tables_built
  by simp

text \<open>
  Claim C4 as stated fails for the RU table: the full stop is character 33 of
  \<^verbatim>\<open>RU_CHARS\<close>, character 33 of \<^verbatim>\<open>EN_CHARS\<close> is the slash, and the string made of one full
  stop converts to U+044E.
\<close>

theorem convert_text_positional_counterexample:
  "46 \<in> set RU_CHARS \<and> RU_CHARS ! 33 = 46 \<and> EN_CHARS ! 33 = 47
   \<and> convert_text [46] = [1102] \<and> [1102] \<noteq> [47::nat]"
  by (simp add: ev)

text \<open>The amended statement at three two-character strings.\<close>

theorem convert_text_positional_witness:
  "set [1102, 46] \<subseteq> set RU_CHARS \<and> 1102 \<notin> set EN_CHARS
   \<and> detect_layout [1102, 46] = ''ru''
   \<and> length (convert_text [1102, 46]) = 2
   \<and> [1102, 46] ! 0 = RU_CHARS ! 32 \<and> convert_text [1102, 46] ! 0 = EN_CHARS ! 32
   \<and> set [102, 46] \<subseteq> set EN_CHARS \<and> detect_layout [102, 46] = ''en''
   \<and> [102, 49] ! 1 \<notin> set EN_CHARS \<and> convert_text [102, 49] ! 1 = [102, 49] ! 1"
proof -
  have ru: "set [1102, 46] \<subseteq> set RU_CHARS" by (simp add: RU_CHARS_def)
  have nen: "1102 \<notin> set EN_CHARS" by (simp add: EN_CHARS_def)
  have en: "set [102, 46] \<subseteq> set EN_CHARS" by (simp add: EN_CHARS_def)
  have out: "[102, 49] ! 1 \<notin> set EN_CHARS" by (simp add: EN_CHARS_def)
  have en2: "set [102, 49] \<subseteq> set EN_CHARS \<union> {49}" by (simp add: EN_CHARS_def)
  have d1: "detect_layout [1102, 46] = ''ru''"
    using convert_text_positional [of "[1102, 46]"] ru nen by auto
  have d2: "detect_layout [102, 46] = ''en''"
    using convert_text_positional [of "[102, 46]"] en by auto
  have d3: "detect_layout [102, 49] = ''en''"
    by (simp add: detect_layout_filter EN_CHARS_def RU_CHARS_def)
  have l: "length (convert_text [1102, 46]) = 2"
    using convert_text_positional [of "[1102, 46]"] by simp
  have i: "[1102, 46] ! 0 = RU_CHARS ! 32" by (simp add: RU_CHARS_def)
  have "(0::nat) < length [1102, 46::nat]" and "32 < length (layout_table ''ru'')"
    by (simp_all add: layout_table_def length_RU)
  with convert_text_positional [of "[1102, 46]"] d1 i
  have c: "convert_text [1102, 46] ! 0 = EN_CHARS ! 32"
    by (simp add: layout_table_def other_table_def)
  have "(1::nat) < length [102, 49::nat]" by simp
  with convert_text_positional [of "[102, 49]"] d3 out
  have u: "convert_text [102, 49] ! 1 = [102, 49] ! 1"
    by (simp add: layout_table_def)
  from ru nen d1 l i c en d2 out u show ?thesis by blast
qed

subsection \<open>Detection\<close>

text \<open>
  Claim C5. \<^verbatim>\<open>detect_layout(text)\<close> is EN when the number of positions of \<open>text\<close> holding
  a character of \<^verbatim>\<open>EN_CHARS\<close> is at least the number of positions holding a character of
  \<^verbatim>\<open>RU_CHARS\<close>, and RU otherwise; the empty string and every string without a
  character of either table are detected as EN.
\<close>

theorem detect_layout_counts:
  "detect_layout text =
     (if card {i. i < length text \<and> text ! i \<in> set EN_CHARS}
         \<ge> card {i. i < length text \<and> text ! i \<in> set RU_CHARS}
      then ''en'' else ''ru'')
   \<and> detect_layout [] = ''en''
   \<and> ((\<forall>c\<in>set text. c \<notin> set EN_CHARS \<and> c \<notin> set RU_CHARS) \<longrightarrow> detect_layout text = ''en'')"
proof -
  have a: "detect_layout text =
     (if card {i. i < length text \<and> text ! i \<in> set EN_CHARS}
         \<ge> card {i. i < length text \<and> text ! i \<in> set RU_CHARS}
      then ''en'' else ''ru'')"
    by (simp only: detect_layout_filter length_filter_conv_card)
  have b: "detect_layout [] = ''en''"
    by (simp add: detect_layout_filter)
  have c: "(\<forall>c\<in>set text. c \<notin> set EN_CHARS \<and> c \<notin> set RU_CHARS) \<longrightarrow> detect_layout text = ''en''"
  proof
    assume h: "\<forall>c\<in>set text. c \<notin> set EN_CHARS \<and> c \<notin> set RU_CHARS"
    then have "filter (\<lambda>c. c \<in> set RU_CHARS) text = []" by (simp add: filter_empty_conv)
    then show "detect_layout text = ''en''" by (simp add: detect_layout_filter)
  qed
  from a b c show ?thesis by blast
qed

text \<open>Detection at the string \<^verbatim>\<open>12\<close> followed by a space, and at a string with two RU letters and one EN letter.\<close>

theorem detect_layout_counts_witness:
  "set [49, 50, 32] \<inter> (set EN_CHARS \<union> set RU_CHARS) = {}
   \<and> detect_layout [49, 50, 32] = ''en''
   \<and> detect_layout [1092, 102, 1099] = ''ru''
   \<and> card {i. i < length [1092, 102, 1099::nat] \<and> [1092, 102, 1099] ! i \<in> set EN_CHARS}
       < card {i. i < length [1092, 102, 1099::nat] \<and> [1092, 102, 1099] ! i \<in> set RU_CHARS}"
proof -
  let ?t = "[1092, 102, 1099::nat]"
  have h: "set [49, 50, 32] \<inter> (set EN_CHARS \<union> set RU_CHARS) = {}"
    by (simp add: EN_CHARS_def RU_CHARS_def)
  then have "\<forall>c\<in>set [49, 50, 32]. c \<notin> set EN_CHARS \<and> c \<notin> set RU_CHARS"
    by blast
  with detect_layout_counts [of "[49, 50, 32]"]
  have e: "detect_layout [49, 50, 32] = ''en''" by blast
  have r: "detect_layout ?t = ''ru''"
    by (simp add: detect_layout_filter EN_CHARS_def RU_CHARS_def)
  have ne: "''ru'' \<noteq> ''en''" by simp
  have "\<not> card {i. i < length ?t \<and> ?t ! i \<in> set RU_CHARS}
         \<le> card {i. i < length ?t \<and> ?t ! i \<in> set EN_CHARS}"
  proof
    assume "card {i. i < length ?t \<and> ?t ! i \<in> set RU_CHARS}
         \<le> card {i. i < length ?t \<and> ?t ! i \<in> set EN_CHARS}"
    with detect_layout_counts [of ?t] have "detect_layout ?t = ''en''"
      by (simp only: if_True)
    with r ne show False by simp
  qed
  with h e r show ?thesis by (simp only: not_le simp_thms)
qed

subsection \<open>Characters of both tables\<close>

lemma shared_EN_TO_RU:
  "EN_TO_RU 46 = Some 1102" "EN_TO_RU 44 = Some 1073" "EN_TO_RU 59 = Some 1078"
  "EN_TO_RU 58 = Some 1046" "EN_TO_RU 63 = Some 44" "EN_TO_RU 34 = Some 1069"
  by (simp_all add: EN_TO_RU_map_of EN_CHARS_def RU_CHARS_def)

text \<open>
  Claim C10. The characters common to \<^verbatim>\<open>EN_CHARS\<close> and \<^verbatim>\<open>RU_CHARS\<close> are the full stop,
  comma, semicolon, colon, question mark and double quote. In a string made of these
  characters only, every character counts for both alphabets, the string is detected
  as EN, is translated with the EN-to-RU table and, unless it is empty, does not come
  out unchanged; the full stop alone becomes U+044E.
\<close>

theorem shared_characters:
  "set EN_CHARS \<inter> set RU_CHARS = {46, 44, 59, 58, 63, 34}
   \<and> (set s \<subseteq> {46, 44, 59, 58, 63, 34} \<longrightarrow>
        length (filter (\<lambda>c. c \<in> set EN_CHARS) s) = length s
        \<and> length (filter (\<lambda>c. c \<in> set RU_CHARS) s) = length s
        \<and> detect_layout s = ''en''
        \<and> convert_text s = translate EN_TO_RU s
        \<and> (s \<noteq> [] \<longrightarrow> convert_text s \<noteq> s))
   \<and> convert_text [46] = [1102]"
proof -
  have c: "convert_text [46] = [1102]" by (simp add: ev)
  have m: "set s \<subseteq> {46, 44, 59, 58, 63, 34} \<longrightarrow>
        length (filter (\<lambda>c. c \<in> set EN_CHARS) s) = length s
        \<and> length (filter (\<lambda>c. c \<in> set RU_CHARS) s) = length s
        \<and> detect_layout s = ''en''
        \<and> convert_text s = translate EN_TO_RU s
        \<and> (s \<noteq> [] \<longrightarrow> convert_text s \<noteq> s)"
  proof
    assume "set s \<subseteq> {46, 44, 59, 58, 63, 34}"
    with shared have sub: "set s \<subseteq> set EN_CHARS \<inter> set RU_CHARS" by simp
    then have en: "\<forall>c\<in>set s. c \<in> set EN_CHARS" and ru: "\<forall>c\<in>set s. c \<in> set RU_CHARS"
      by auto
    have 1: "length (filter (\<lambda>c. c \<in> set EN_CHARS) s) = length s" using en by simp
    have 2: "length (filter (\<lambda>c. c \<in> set RU_CHARS) s) = length s" using ru by simp
    have 3: "detect_layout s = ''en''" by (rule detect_pure_EN [OF en])
    have 4: "convert_text s = translate EN_TO_RU s" by (rule convert_pure_EN [OF en])
    have 5: "s \<noteq> [] \<longrightarrow> convert_text s \<noteq> s"
    proof
      assume "s \<noteq> []"
      then obtain x xs where s: "s = x # xs" by (cases s) auto
      with \<open>set s \<subseteq> {46, 44, 59, 58, 63, 34}\<close> have "x \<in> {46, 44, 59, 58, 63, 34}" by simp
      then have "(case EN_TO_RU x of Some d \<Rightarrow> d | None \<Rightarrow> x) \<noteq> x"
        using shared_EN_TO_RU by auto
      then show "convert_text s \<noteq> s" using 4 by (simp add: s translate_def)
    qed
    from 1 2 3 4 5 show "length (filter (\<lambda>c. c \<in> set EN_CHARS) s) = length s
        \<and> length (filter (\<lambda>c. c \<in> set RU_CHARS) s) = length s
        \<and> detect_layout s = ''en''
        \<and> convert_text s = translate EN_TO_RU s
        \<and> (s \<noteq> [] \<longrightarrow> convert_text s \<noteq> s)" by blast
  qed
  from shared m c show ?thesis by blast
qed

text \<open>The string made of a question mark and a full stop.\<close>

theorem shared_characters_witness:
  "set [63, 46] \<subseteq> {46, 44, 59, 58, 63, 34::nat} \<and> [63, 46] \<noteq> ([]::nat list)
   \<and> detect_layout [63, 46] = ''en'' \<and> convert_text [63, 46] = [44, 1102]
   \<and> convert_text [63, 46] \<noteq> [63, 46]"
  using shared_characters [of "[63, 46]"] shared_EN_TO_RU by (simp add: translate_def)

section \<open>Traces of the synthetic input driver\<close>

lemma emit_emit: "emit es2 (emit es1 w) = emit (es1 @ es2) w"
  by (simp add: emit_def)

lemma emit_Nil: "emit [] w = w"
  by (simp add: emit_def)

lemma events_emit: "events (emit es w) = events w @ es"
  by (simp add: emit_def)

lemma send_key_press_emit:
  "snd (send_key_press vk w) =
     emit [SendInput [INPUT vk (case scan_codes vk of Some sc \<Rightarrow> sc | None \<Rightarrow> 0) 0,
                      INPUT vk (case scan_codes vk of Some sc \<Rightarrow> sc | None \<Rightarrow> 0) 2]] w"
  by (simp add: send_key_press_def send_input_keys_def Let_def)

lemma scan_codes_simps:
  "scan_codes 8 = None" "scan_codes 35 = None" "scan_codes 17 = Some 29"
  "scan_codes 16 = Some 42" "scan_codes 37 = Some 75" "scan_codes 67 = Some 46"
  "scan_codes 86 = Some 47" "scan_codes 45 = Some 82"
  by (simp_all add: scan_codes_def)

lemma backspaces_emit:
  "backspaces n w =
     emit (concat (replicate n [SendInput [INPUT 8 0 0, INPUT 8 0 2], Sleep 10])) w"
proof (induction n arbitrary: w)
  case 0
  show ?case by (simp add: emit_Nil)
next
  case (Suc n)
  show ?case
    by (simp add: Suc.IH send_key_press_emit scan_codes_simps sleep_def emit_emit)
qed

lemma type_text_emit:
  "type_text s w = emit (concat (map (\<lambda>c. [SendInput (unicode_inputs c), Sleep 10]) s)) w"
proof (induction s arbitrary: w)
  case Nil
  show ?case by (simp add: emit_Nil)
next
  case (Cons c s)
  show ?case by (simp add: Cons.IH sleep_def emit_emit)
qed

lemma switch_keyboard_layout_events:
  "events (switch_keyboard_layout l w) =
     events w @ GetForegroundWindow #
       (if next_foreground w \<noteq> 0
        then [PostMessageW (next_foreground w) 80 0 (if l = ''en'' then 67699721 else 68748313)]
        else [])"
  by (simp add: switch_keyboard_layout_def get_foreground_hwnd_def emit_def)

lemma next_foreground_emit: "next_foreground (emit es w) = next_foreground w"
  by (simp add: next_foreground_def emit_def)

lemma send_ctrl_key_emit:
  "snd (send_ctrl_key k w) =
     emit [SendInput [INPUT 17 29 0, INPUT k (case scan_codes k of Some sc \<Rightarrow> sc | None \<Rightarrow> 0) 0,
                      INPUT k (case scan_codes k of Some sc \<Rightarrow> sc | None \<Rightarrow> 0) 2,
                      INPUT 17 29 2]] w"
  by (simp add: send_ctrl_key_def send_key_combo_def send_input_keys_def scan_codes_simps Let_def)

lemma convert_text_Nil: "convert_text [] = []"
  by (simp add: convert_text_def translate_def Let_def)

lemma console_replacement:
  assumes "get_console_last_word hwnd (sleep 100 w) = (Some word, w1)"
    and "convert_text word \<noteq> word"
  shows "fst (convert_in_console hwnd w) = True"
    and "events (snd (convert_in_console hwnd w)) =
       events w1
       @ concat (replicate (length word) [SendInput [INPUT 8 0 0, INPUT 8 0 2], Sleep 10])
       @ [Sleep 50]
       @ concat (map (\<lambda>c. [SendInput (unicode_inputs c), Sleep 10]) (convert_text word))
       @ [Sleep 50, GetForegroundWindow]
       @ (if next_foreground w1 \<noteq> 0
          then [PostMessageW (next_foreground w1) 80 0
                  (if detect_layout word = ''en'' then 68748313 else 67699721)]
          else [])"
proof -
  from assms(2) have ne: "word \<noteq> []"
    by (auto simp: convert_text_Nil)
  show "fst (convert_in_console hwnd w) = True"
    using assms ne by (simp add: convert_in_console_def py_not_def)
  show "events (snd (convert_in_console hwnd w)) =
       events w1
       @ concat (replicate (length word) [SendInput [INPUT 8 0 0, INPUT 8 0 2], Sleep 10])
       @ [Sleep 50]
       @ concat (map (\<lambda>c. [SendInput (unicode_inputs c), Sleep 10]) (convert_text word))
       @ [Sleep 50, GetForegroundWindow]
       @ (if next_foreground w1 \<noteq> 0
          then [PostMessageW (next_foreground w1) 80 0
                  (if detect_layout word = ''en'' then 68748313 else 67699721)]
          else [])"
    using assms ne
    by (simp add: convert_in_console_def py_not_def backspaces_emit type_text_emit
        switch_keyboard_layout_events sleep_def emit_emit events_emit next_foreground_emit
        opposite_layout_def)
qed

lemma terminal_replacement:
  assumes "terminal_acquire w = (Some word, w1)" and "convert_text word \<noteq> word"
  shows "fst (convert_in_terminal hwnd w) = True"
    and "events (snd (convert_in_terminal hwnd w)) =
       events w1
       @ [SendInput [INPUT 35 0 0, INPUT 35 0 2], Sleep 30]
       @ concat (replicate (length word) [SendInput [INPUT 8 0 0, INPUT 8 0 2], Sleep 10])
       @ [Sleep 50]
       @ concat (map (\<lambda>c. [SendInput (unicode_inputs c), Sleep 10]) (convert_text word))
       @ [Sleep 50, GetForegroundWindow]
       @ (if next_foreground w1 \<noteq> 0
          then [PostMessageW (next_foreground w1) 80 0
                  (if detect_layout word = ''en'' then 68748313 else 67699721)]
          else [])"
proof -
  show "fst (convert_in_terminal hwnd w) = True"
    using assms by (simp add: convert_in_terminal_def Let_def)
  show "events (snd (convert_in_terminal hwnd w)) =
       events w1
       @ [SendInput [INPUT 35 0 0, INPUT 35 0 2], Sleep 30]
       @ concat (replicate (length word) [SendInput [INPUT 8 0 0, INPUT 8 0 2], Sleep 10])
       @ [Sleep 50]
       @ concat (map (\<lambda>c. [SendInput (unicode_inputs c), Sleep 10]) (convert_text word))
       @ [Sleep 50, GetForegroundWindow]
       @ (if next_foreground w1 \<noteq> 0
          then [PostMessageW (next_foreground w1) 80 0
                  (if detect_layout word = ''en'' then 68748313 else 67699721)]
          else [])"
    using assms
    by (simp add: convert_in_terminal_def backspaces_emit type_text_emit
        send_key_press_emit scan_codes_simps
        switch_keyboard_layout_events sleep_def emit_emit events_emit next_foreground_emit
        opposite_layout_def)
qed


lemma console_abort:
  assumes "get_console_last_word hwnd (sleep 100 w) = (Some word, w1)"
    and "convert_text word = word"
  shows "convert_in_console hwnd w = (False, w1)"
  using assms by (simp add: convert_in_console_def Let_def)

lemma terminal_abort:
  assumes "terminal_acquire w = (Some word, w1)" and "convert_text word = word"
  shows "convert_in_terminal hwnd w = (False, w1)"
  using assms by (simp add: convert_in_terminal_def Let_def)

lemma plain_abort:
  assumes "plain_acquire w = (Some text, w1)" and "convert_text text = text"
  shows "convert_plain w = (Inr False, w1)"
  using assms by (simp add: convert_plain_def Let_def)

lemma key_batches_append: "key_batches (xs @ ys) = key_batches xs @ key_batches ys"
  by (simp add: key_batches_def)

lemma events_clear_clipboard:
  "key_batches (events (clear_clipboard w)) = key_batches (events w)"
  by (simp add: clear_clipboard_def emit_def key_batches_def)

lemma get_clipboard_text_result:
  "fst (get_clipboard_text w) = read_result (next_clipboard_read w)"
  by (simp add: get_clipboard_text_def read_result_def Let_def split: clip_read.splits)

lemma get_clipboard_text_reads:
  "clipboard_reads (snd (get_clipboard_text w)) = tl (clipboard_reads w)"
  by (simp add: get_clipboard_text_def emit_def Let_def split: clip_read.splits)

lemma get_clipboard_text_batches:
  "key_batches (events (snd (get_clipboard_text w))) = key_batches (events w)"
  by (simp add: get_clipboard_text_def emit_def key_batches_def Let_def split: clip_read.splits)

lemma take_eq_short:
  assumes "length ys < n"
  shows "take n xs = ys \<longleftrightarrow> xs = ys"
proof
  assume t: "take n xs = ys"
  then have "length (take n xs) = length ys" by simp
  with assms have "length xs < n" by simp
  with t show "xs = ys" by simp
next
  assume "xs = ys"
  with assms show "take n xs = ys" by simp
qed

section \<open>Aborting when nothing changes\<close>

text \<open>
  Claim C6. In each of the three conversion paths (legacy console, modern terminal,
  plain), when the converted text equals the text that was acquired, the attempt
  returns \<^verbatim>\<open>False\<close> and the world is the one the acquisition left: no call at all, so
  no backspace key event and no character injection, is made after the comparison.
\<close>

theorem unchanged_text_aborts:
  "(get_console_last_word hwnd (sleep 100 w) = (Some word, w1) \<and> convert_text word = word
      \<longrightarrow> convert_in_console hwnd w = (False, w1))
   \<and> (terminal_acquire w = (Some word, w1) \<and> convert_text word = word
      \<longrightarrow> convert_in_terminal hwnd w = (False, w1))
   \<and> (plain_acquire w = (Some word, w1) \<and> convert_text word = word
      \<longrightarrow> convert_plain w = (Inr False, w1))"
  using console_abort terminal_abort plain_abort by blast

section \<open>Acquisition in the plain path\<close>

lemma two_modifier_combo_emit:
  "snd (send_two_modifier_combo 17 16 k w) =
     emit [SendInput
             [INPUT 17 29 0, INPUT 16 42 0,
              INPUT k (case scan_codes k of Some sc \<Rightarrow> sc | None \<Rightarrow> 0)
                (if k \<in> extended_keys then 1 else 0),
              INPUT k (case scan_codes k of Some sc \<Rightarrow> sc | None \<Rightarrow> 0)
                ((if k \<in> extended_keys then 1 else 0) OR 2),
              INPUT 16 42 2, INPUT 17 29 2]] w"
  by (simp add: send_two_modifier_combo_def send_input_keys_def Let_def scan_codes_simps)

lemma clipboard_reads_emit: "clipboard_reads (emit es w) = clipboard_reads w"
  by (simp add: emit_def)

lemma clipboard_reads_sleep: "clipboard_reads (sleep n w) = clipboard_reads w"
  by (simp add: sleep_def emit_def)

lemma clipboard_reads_clear: "clipboard_reads (clear_clipboard w) = clipboard_reads w"
  by (simp add: clear_clipboard_def emit_def)

lemma clipboard_reads_ctrl_key:
  "clipboard_reads (snd (send_ctrl_key k w)) = clipboard_reads w"
  by (simp add: send_ctrl_key_emit emit_def)

lemma clipboard_reads_combo:
  "clipboard_reads (snd (send_two_modifier_combo 17 16 k w)) = clipboard_reads w"
  by (simp add: two_modifier_combo_emit emit_def)

lemmas clipboard_reads_kept =
  clipboard_reads_emit clipboard_reads_sleep clipboard_reads_clear clipboard_reads_ctrl_key
  clipboard_reads_combo

lemma key_batches_sleep: "key_batches (events (sleep n w)) = key_batches (events w)"
  by (simp add: sleep_def emit_def key_batches_def)

lemma key_batches_ctrl_key:
  "key_batches (events (snd (send_ctrl_key k w))) =
     key_batches (events w)
     @ [[INPUT 17 29 0, INPUT k (case scan_codes k of Some sc \<Rightarrow> sc | None \<Rightarrow> 0) 0,
         INPUT k (case scan_codes k of Some sc \<Rightarrow> sc | None \<Rightarrow> 0) 2, INPUT 17 29 2]]"
  by (simp add: send_ctrl_key_emit emit_def key_batches_def)

lemma key_batches_combo_left:
  "key_batches (events (snd (send_two_modifier_combo 17 16 37 w))) =
     key_batches (events w)
     @ [[INPUT 17 29 0, INPUT 16 42 0, INPUT 37 75 1, INPUT 37 75 3, INPUT 16 42 2,
         INPUT 17 29 2]]"
  by (simp add: two_modifier_combo_emit emit_def key_batches_def scan_codes_simps
      extended_keys_def)

lemmas key_batches_steps =
  key_batches_sleep key_batches_ctrl_key key_batches_combo_left events_clear_clipboard
  get_clipboard_text_batches scan_codes_simps

lemma plain_acquire_first:
  assumes "clipboard_reads w = r1 # rs" and "\<not> py_not (read_result r1)"
  shows "fst (plain_acquire w) = read_result r1"
    and "clipboard_reads (snd (plain_acquire w)) = rs"
    and "key_batches (events (snd (plain_acquire w))) =
           key_batches (events w)
           @ [[INPUT 17 29 0, INPUT 45 82 0, INPUT 45 82 2, INPUT 17 29 2]]"
proof -
  let ?w1 = "sleep 80 (snd (send_ctrl_key 45 (clear_clipboard (sleep 50 w))))"
  have reads: "clipboard_reads ?w1 = r1 # rs"
    using assms(1) by (simp only: clipboard_reads_kept)
  then have nxt: "next_clipboard_read ?w1 = r1"
    by (simp add: next_clipboard_read_def)
  have b1: "key_batches (events ?w1) =
      key_batches (events w) @ [[INPUT 17 29 0, INPUT 45 82 0, INPUT 45 82 2, INPUT 17 29 2]]"
    by (simp add: key_batches_steps)
  have "\<not> py_not (fst (get_clipboard_text ?w1))"
    using assms(2) by (simp add: get_clipboard_text_result nxt)
  then have pa: "plain_acquire w = get_clipboard_text ?w1"
    by (simp add: plain_acquire_def Let_def case_prod_beta)
  show "fst (plain_acquire w) = read_result r1"
    by (simp only: pa get_clipboard_text_result nxt)
  show "clipboard_reads (snd (plain_acquire w)) = rs"
    by (simp add: pa get_clipboard_text_reads reads)
  show "key_batches (events (snd (plain_acquire w))) =
           key_batches (events w)
           @ [[INPUT 17 29 0, INPUT 45 82 0, INPUT 45 82 2, INPUT 17 29 2]]"
    by (simp only: pa get_clipboard_text_batches b1)
qed

lemma plain_acquire_fallback:
  assumes "clipboard_reads w = r1 # r2 # rs" and "py_not (read_result r1)"
  shows "fst (plain_acquire w) = read_result r2"
    and "clipboard_reads (snd (plain_acquire w)) = rs"
    and "key_batches (events (snd (plain_acquire w))) =
           key_batches (events w)
           @ [[INPUT 17 29 0, INPUT 45 82 0, INPUT 45 82 2, INPUT 17 29 2],
              [INPUT 17 29 0, INPUT 16 42 0, INPUT 37 75 1, INPUT 37 75 3, INPUT 16 42 2,
               INPUT 17 29 2],
              [INPUT 17 29 0, INPUT 45 82 0, INPUT 45 82 2, INPUT 17 29 2]]"
proof -
  let ?w1 = "sleep 80 (snd (send_ctrl_key 45 (clear_clipboard (sleep 50 w))))"
  let ?w2 = "sleep 50 (snd (send_ctrl_key 45 (sleep 30
               (snd (send_two_modifier_combo 17 16 37 (snd (get_clipboard_text ?w1)))))))"
  have reads1: "clipboard_reads ?w1 = r1 # r2 # rs"
    using assms(1) by (simp only: clipboard_reads_kept)
  then have nxt1: "next_clipboard_read ?w1 = r1"
    by (simp add: next_clipboard_read_def)
  have reads2: "clipboard_reads ?w2 = r2 # rs"
    by (simp add: clipboard_reads_kept get_clipboard_text_reads assms(1))
  then have nxt2: "next_clipboard_read ?w2 = r2"
    by (simp add: next_clipboard_read_def)
  have b2: "key_batches (events ?w2) =
      key_batches (events w)
      @ [[INPUT 17 29 0, INPUT 45 82 0, INPUT 45 82 2, INPUT 17 29 2],
         [INPUT 17 29 0, INPUT 16 42 0, INPUT 37 75 1, INPUT 37 75 3, INPUT 16 42 2,
          INPUT 17 29 2],
         [INPUT 17 29 0, INPUT 45 82 0, INPUT 45 82 2, INPUT 17 29 2]]"
    by (simp add: key_batches_steps)
  have "py_not (fst (get_clipboard_text ?w1))"
    using assms(2) by (simp add: get_clipboard_text_result nxt1)
  then have pa: "plain_acquire w = get_clipboard_text ?w2"
    by (simp add: plain_acquire_def Let_def case_prod_beta)
  show "fst (plain_acquire w) = read_result r2"
    by (simp only: pa get_clipboard_text_result nxt2)
  show "clipboard_reads (snd (plain_acquire w)) = rs"
    by (simp add: pa get_clipboard_text_reads reads2)
  show "key_batches (events (snd (plain_acquire w))) =
           key_batches (events w)
           @ [[INPUT 17 29 0, INPUT 45 82 0, INPUT 45 82 2, INPUT 17 29 2],
              [INPUT 17 29 0, INPUT 16 42 0, INPUT 37 75 1, INPUT 37 75 3, INPUT 16 42 2,
               INPUT 17 29 2],
              [INPUT 17 29 0, INPUT 45 82 0, INPUT 45 82 2, INPUT 17 29 2]]"
    by (simp only: pa get_clipboard_text_batches b2)
qed

lemma plain_gives_up:
  assumes "py_not (fst (plain_acquire w))"
  shows "convert_plain w = (Inr False, snd (plain_acquire w))"
  using assms by (simp add: convert_plain_def Let_def case_prod_beta)

lemma get_clipboard_text_events:
  "events (snd (get_clipboard_text w)) = events w @ clipboard_read_calls (next_clipboard_read w)"
  by (simp add: get_clipboard_text_def clipboard_read_calls_def emit_def Let_def
      split: clip_read.splits)

lemma plain_acquire_events:
  assumes "clipboard_reads w = r1 # r2 # rs"
  shows "\<not> py_not (read_result r1) \<Longrightarrow>
         events (snd (plain_acquire w)) =
           events w
           @ [Sleep 50]
           @ (if clipboard_clear_opens w then [OpenClipboard, EmptyClipboard, CloseClipboard]
              else [OpenClipboard])
           @ [SendInput [INPUT 17 29 0, INPUT 45 82 0, INPUT 45 82 2, INPUT 17 29 2], Sleep 80]
           @ clipboard_read_calls r1"
    and "py_not (read_result r1) \<Longrightarrow>
         events (snd (plain_acquire w)) =
           events w
           @ [Sleep 50]
           @ (if clipboard_clear_opens w then [OpenClipboard, EmptyClipboard, CloseClipboard]
              else [OpenClipboard])
           @ [SendInput [INPUT 17 29 0, INPUT 45 82 0, INPUT 45 82 2, INPUT 17 29 2], Sleep 80]
           @ clipboard_read_calls r1
           @ [SendInput [INPUT 17 29 0, INPUT 16 42 0, INPUT 37 75 1, INPUT 37 75 3,
                         INPUT 16 42 2, INPUT 17 29 2],
              Sleep 30,
              SendInput [INPUT 17 29 0, INPUT 45 82 0, INPUT 45 82 2, INPUT 17 29 2], Sleep 50]
           @ clipboard_read_calls r2"
proof -
  let ?w1 = "sleep 80 (snd (send_ctrl_key 45 (clear_clipboard (sleep 50 w))))"
  let ?g1 = "snd (get_clipboard_text ?w1)"
  let ?w2 = "sleep 50 (snd (send_ctrl_key 45 (sleep 30
               (snd (send_two_modifier_combo 17 16 37 ?g1)))))"
  have reads1: "clipboard_reads ?w1 = r1 # r2 # rs"
    using assms by (simp only: clipboard_reads_kept)
  then have nxt1: "next_clipboard_read ?w1 = r1"
    by (simp add: next_clipboard_read_def)
  have reads2: "clipboard_reads ?w2 = r2 # rs"
    by (simp add: clipboard_reads_kept get_clipboard_text_reads assms)
  then have nxt2: "next_clipboard_read ?w2 = r2"
    by (simp add: next_clipboard_read_def)
  have e1: "events ?w1 =
      events w
      @ [Sleep 50]
      @ (if clipboard_clear_opens w then [OpenClipboard, EmptyClipboard, CloseClipboard]
         else [OpenClipboard])
      @ [SendInput [INPUT 17 29 0, INPUT 45 82 0, INPUT 45 82 2, INPUT 17 29 2], Sleep 80]"
    by (simp add: sleep_def send_ctrl_key_emit scan_codes_simps clear_clipboard_def emit_def)
  have g1: "events ?g1 = events ?w1 @ clipboard_read_calls r1"
    by (simp only: get_clipboard_text_events nxt1)
  have e2: "\<And>v. events (sleep 50 (snd (send_ctrl_key 45 (sleep 30
               (snd (send_two_modifier_combo 17 16 37 v)))))) =
      events v
      @ [SendInput [INPUT 17 29 0, INPUT 16 42 0, INPUT 37 75 1, INPUT 37 75 3,
                    INPUT 16 42 2, INPUT 17 29 2],
         Sleep 30,
         SendInput [INPUT 17 29 0, INPUT 45 82 0, INPUT 45 82 2, INPUT 17 29 2], Sleep 50]"
    by (simp add: sleep_def send_ctrl_key_emit two_modifier_combo_emit scan_codes_simps
        extended_keys_def emit_def)
  have g2: "events (snd (get_clipboard_text ?w2)) = events ?w2 @ clipboard_read_calls r2"
    by (simp only: get_clipboard_text_events nxt2)
  {
    assume n: "\<not> py_not (read_result r1)"
    then have "\<not> py_not (fst (get_clipboard_text ?w1))"
      by (simp add: get_clipboard_text_result nxt1)
    then have pa: "plain_acquire w = get_clipboard_text ?w1"
      by (simp add: plain_acquire_def Let_def case_prod_beta)
    show "events (snd (plain_acquire w)) =
           events w
           @ [Sleep 50]
           @ (if clipboard_clear_opens w then [OpenClipboard, EmptyClipboard, CloseClipboard]
              else [OpenClipboard])
           @ [SendInput [INPUT 17 29 0, INPUT 45 82 0, INPUT 45 82 2, INPUT 17 29 2], Sleep 80]
           @ clipboard_read_calls r1"
      by (simp only: pa g1 e1 append_assoc)
  }
  {
    assume y: "py_not (read_result r1)"
    then have "py_not (fst (get_clipboard_text ?w1))"
      by (simp add: get_clipboard_text_result nxt1)
    then have pa: "plain_acquire w = get_clipboard_text ?w2"
      by (simp add: plain_acquire_def Let_def case_prod_beta)
    show "events (snd (plain_acquire w)) =
           events w
           @ [Sleep 50]
           @ (if clipboard_clear_opens w then [OpenClipboard, EmptyClipboard, CloseClipboard]
              else [OpenClipboard])
           @ [SendInput [INPUT 17 29 0, INPUT 45 82 0, INPUT 45 82 2, INPUT 17 29 2], Sleep 80]
           @ clipboard_read_calls r1
           @ [SendInput [INPUT 17 29 0, INPUT 16 42 0, INPUT 37 75 1, INPUT 37 75 3,
                         INPUT 16 42 2, INPUT 17 29 2],
              Sleep 30,
              SendInput [INPUT 17 29 0, INPUT 45 82 0, INPUT 45 82 2, INPUT 17 29 2], Sleep 50]
           @ clipboard_read_calls r2"
      by (simp only: pa g2 e2 [of ?g1] g1 e1 append_assoc)
  }
qed

text \<open>
  Claim C7. Let the first clipboard read of the plain path meet \<open>r1\<close> and a second one
  \<open>r2\<close>. When \<open>r1\<close> yields a non-empty text, that text is returned after one copy
  combination (Ctrl+Insert) and one read. When \<open>r1\<close> yields no text, the fallback runs
  exactly once, after the first read and in this order: one extend-selection
  combination (Ctrl+Shift+Left), one more copy combination and one more read, whose
  result is returned. The calls of the acquisition are exactly those listed, in that
  order. When both reads yield no text the attempt returns \<^verbatim>\<open>False\<close> without any
  further call.
\<close>

theorem plain_acquisition_fallback_once:
  "clipboard_reads w = r1 # r2 # rs \<longrightarrow>
     (\<not> py_not (read_result r1) \<longrightarrow>
        fst (plain_acquire w) = read_result r1
        \<and> clipboard_reads (snd (plain_acquire w)) = r2 # rs
        \<and> key_batches (events (snd (plain_acquire w))) =
            key_batches (events w)
            @ [[INPUT VK_CONTROL 0x1D 0, INPUT VK_INSERT 0x52 0,
                INPUT VK_INSERT 0x52 KEYEVENTF_KEYUP, INPUT VK_CONTROL 0x1D KEYEVENTF_KEYUP]]
        \<and> events (snd (plain_acquire w)) =
            events w
            @ [Sleep 50]
            @ (if clipboard_clear_opens w then [OpenClipboard, EmptyClipboard, CloseClipboard]
               else [OpenClipboard])
            @ [SendInput
               [INPUT VK_CONTROL 0x1D 0, INPUT VK_INSERT 0x52 0,
                INPUT VK_INSERT 0x52 KEYEVENTF_KEYUP, INPUT VK_CONTROL 0x1D KEYEVENTF_KEYUP],
               Sleep 80]
            @ clipboard_read_calls r1)
     \<and> (py_not (read_result r1) \<longrightarrow>
        fst (plain_acquire w) = read_result r2
        \<and> clipboard_reads (snd (plain_acquire w)) = rs
        \<and> key_batches (events (snd (plain_acquire w))) =
            key_batches (events w)
            @ [[INPUT VK_CONTROL 0x1D 0, INPUT VK_INSERT 0x52 0,
                INPUT VK_INSERT 0x52 KEYEVENTF_KEYUP, INPUT VK_CONTROL 0x1D KEYEVENTF_KEYUP],
               [INPUT VK_CONTROL 0x1D 0, INPUT VK_SHIFT 0x2A 0,
                INPUT VK_LEFT 0x4B KEYEVENTF_EXTENDEDKEY,
                INPUT VK_LEFT 0x4B (KEYEVENTF_EXTENDEDKEY OR KEYEVENTF_KEYUP),
                INPUT VK_SHIFT 0x2A KEYEVENTF_KEYUP, INPUT VK_CONTROL 0x1D KEYEVENTF_KEYUP],
               [INPUT VK_CONTROL 0x1D 0, INPUT VK_INSERT 0x52 0,
                INPUT VK_INSERT 0x52 KEYEVENTF_KEYUP, INPUT VK_CONTROL 0x1D KEYEVENTF_KEYUP]]
        \<and> events (snd (plain_acquire w)) =
            events w
            @ [Sleep 50]
            @ (if clipboard_clear_opens w then [OpenClipboard, EmptyClipboard, CloseClipboard]
               else [OpenClipboard])
            @ [SendInput
               [INPUT VK_CONTROL 0x1D 0, INPUT VK_INSERT 0x52 0,
                INPUT VK_INSERT 0x52 KEYEVENTF_KEYUP, INPUT VK_CONTROL 0x1D KEYEVENTF_KEYUP],
               Sleep 80]
            @ clipboard_read_calls r1
            @ [SendInput
               [INPUT VK_CONTROL 0x1D 0, INPUT VK_SHIFT 0x2A 0,
                INPUT VK_LEFT 0x4B KEYEVENTF_EXTENDEDKEY,
                INPUT VK_LEFT 0x4B (KEYEVENTF_EXTENDEDKEY OR KEYEVENTF_KEYUP),
                INPUT VK_SHIFT 0x2A KEYEVENTF_KEYUP, INPUT VK_CONTROL 0x1D KEYEVENTF_KEYUP],
               Sleep 30,
               SendInput
               [INPUT VK_CONTROL 0x1D 0, INPUT VK_INSERT 0x52 0,
                INPUT VK_INSERT 0x52 KEYEVENTF_KEYUP, INPUT VK_CONTROL 0x1D KEYEVENTF_KEYUP],
               Sleep 50]
            @ clipboard_read_calls r2)
     \<and> (py_not (read_result r1) \<and> py_not (read_result r2) \<longrightarrow>
        convert_plain w = (Inr False, snd (plain_acquire w)))"
proof
  assume reads: "clipboard_reads w = r1 # r2 # rs"
  have "py_not (read_result r1) \<and> py_not (read_result r2) \<longrightarrow>
        convert_plain w = (Inr False, snd (plain_acquire w))"
  proof
    assume e: "py_not (read_result r1) \<and> py_not (read_result r2)"
    then have "py_not (fst (plain_acquire w))"
      using plain_acquire_fallback(1) [OF reads] by simp
    then show "convert_plain w = (Inr False, snd (plain_acquire w))"
      by (rule plain_gives_up)
  qed
  then show "(\<not> py_not (read_result r1) \<longrightarrow>
        fst (plain_acquire w) = read_result r1
        \<and> clipboard_reads (snd (plain_acquire w)) = r2 # rs
        \<and> key_batches (events (snd (plain_acquire w))) =
            key_batches (events w)
            @ [[INPUT VK_CONTROL 0x1D 0, INPUT VK_INSERT 0x52 0,
                INPUT VK_INSERT 0x52 KEYEVENTF_KEYUP, INPUT VK_CONTROL 0x1D KEYEVENTF_KEYUP]]
        \<and> events (snd (plain_acquire w)) =
            events w
            @ [Sleep 50]
            @ (if clipboard_clear_opens w then [OpenClipboard, EmptyClipboard, CloseClipboard]
               else [OpenClipboard])
            @ [SendInput
               [INPUT VK_CONTROL 0x1D 0, INPUT VK_INSERT 0x52 0,
                INPUT VK_INSERT 0x52 KEYEVENTF_KEYUP, INPUT VK_CONTROL 0x1D KEYEVENTF_KEYUP],
               Sleep 80]
            @ clipboard_read_calls r1)
     \<and> (py_not (read_result r1) \<longrightarrow>
        fst (plain_acquire w) = read_result r2
        \<and> clipboard_reads (snd (plain_acquire w)) = rs
        \<and> key_batches (events (snd (plain_acquire w))) =
            key_batches (events w)
            @ [[INPUT VK_CONTROL 0x1D 0, INPUT VK_INSERT 0x52 0,
                INPUT VK_INSERT 0x52 KEYEVENTF_KEYUP, INPUT VK_CONTROL 0x1D KEYEVENTF_KEYUP],
               [INPUT VK_CONTROL 0x1D 0, INPUT VK_SHIFT 0x2A 0,
                INPUT VK_LEFT 0x4B KEYEVENTF_EXTENDEDKEY,
                INPUT VK_LEFT 0x4B (KEYEVENTF_EXTENDEDKEY OR KEYEVENTF_KEYUP),
                INPUT VK_SHIFT 0x2A KEYEVENTF_KEYUP, INPUT VK_CONTROL 0x1D KEYEVENTF_KEYUP],
               [INPUT VK_CONTROL 0x1D 0, INPUT VK_INSERT 0x52 0,
                INPUT VK_INSERT 0x52 KEYEVENTF_KEYUP, INPUT VK_CONTROL 0x1D KEYEVENTF_KEYUP]]
        \<and> events (snd (plain_acquire w)) =
            events w
            @ [Sleep 50]
            @ (if clipboard_clear_opens w then [OpenClipboard, EmptyClipboard, CloseClipboard]
               else [OpenClipboard])
            @ [SendInput
               [INPUT VK_CONTROL 0x1D 0, INPUT VK_INSERT 0x52 0,
                INPUT VK_INSERT 0x52 KEYEVENTF_KEYUP, INPUT VK_CONTROL 0x1D KEYEVENTF_KEYUP],
               Sleep 80]
            @ clipboard_read_calls r1
            @ [SendInput
               [INPUT VK_CONTROL 0x1D 0, INPUT VK_SHIFT 0x2A 0,
                INPUT VK_LEFT 0x4B KEYEVENTF_EXTENDEDKEY,
                INPUT VK_LEFT 0x4B (KEYEVENTF_EXTENDEDKEY OR KEYEVENTF_KEYUP),
                INPUT VK_SHIFT 0x2A KEYEVENTF_KEYUP, INPUT VK_CONTROL 0x1D KEYEVENTF_KEYUP],
               Sleep 30,
               SendInput
               [INPUT VK_CONTROL 0x1D 0, INPUT VK_INSERT 0x52 0,
                INPUT VK_INSERT 0x52 KEYEVENTF_KEYUP, INPUT VK_CONTROL 0x1D KEYEVENTF_KEYUP],
               Sleep 50]
            @ clipboard_read_calls r2)
     \<and> (py_not (read_result r1) \<and> py_not (read_result r2) \<longrightarrow>
        convert_plain w = (Inr False, snd (plain_acquire w)))"
    using plain_acquire_first [OF reads] plain_acquire_fallback [OF reads]
      plain_acquire_events [OF reads]
    by simp
qed

text \<open>
  The fallback at a clipboard that is empty at first and then holds \<^verbatim>\<open>gh\<close>, the direct
  path at a clipboard that holds \<^verbatim>\<open>gh\<close> at once, and giving up at a clipboard that
  stays empty.
\<close>

theorem plain_acquisition_fallback_once_witness:
  "clipboard_reads (desktop (ustr ''Notepad'') [ReadNoData, ReadText [103, 104]])
     = [ReadNoData, ReadText [103, 104]]
   \<and> py_not (read_result ReadNoData)
   \<and> fst (plain_acquire (desktop (ustr ''Notepad'') [ReadNoData, ReadText [103, 104]]))
       = Some [103, 104]
   \<and> clipboard_reads
        (snd (plain_acquire (desktop (ustr ''Notepad'') [ReadNoData, ReadText [103, 104]])))
       = []
   \<and> key_batches (events
        (snd (plain_acquire (desktop (ustr ''Notepad'') [ReadNoData, ReadText [103, 104]]))))
       = [[INPUT 17 29 0, INPUT 45 82 0, INPUT 45 82 2, INPUT 17 29 2],
          [INPUT 17 29 0, INPUT 16 42 0, INPUT 37 75 1, INPUT 37 75 3, INPUT 16 42 2,
           INPUT 17 29 2],
          [INPUT 17 29 0, INPUT 45 82 0, INPUT 45 82 2, INPUT 17 29 2]]
   \<and> events
        (snd (plain_acquire (desktop (ustr ''Notepad'') [ReadNoData, ReadText [103, 104]])))
       = [Sleep 50, OpenClipboard, EmptyClipboard, CloseClipboard,
          SendInput [INPUT 17 29 0, INPUT 45 82 0, INPUT 45 82 2, INPUT 17 29 2], Sleep 80,
          OpenClipboard, GetClipboardData, CloseClipboard,
          SendInput [INPUT 17 29 0, INPUT 16 42 0, INPUT 37 75 1, INPUT 37 75 3, INPUT 16 42 2,
                     INPUT 17 29 2],
          Sleep 30,
          SendInput [INPUT 17 29 0, INPUT 45 82 0, INPUT 45 82 2, INPUT 17 29 2], Sleep 50,
          OpenClipboard, GetClipboardData, GlobalLock, GlobalUnlock, CloseClipboard]
   \<and> clipboard_reads (desktop (ustr ''Notepad'') [ReadText [103, 104], ReadNoData])
     = [ReadText [103, 104], ReadNoData]
   \<and> \<not> py_not (read_result (ReadText [103, 104]))
   \<and> fst (plain_acquire (desktop (ustr ''Notepad'') [ReadText [103, 104], ReadNoData]))
       = Some [103, 104]
   \<and> clipboard_reads
        (snd (plain_acquire (desktop (ustr ''Notepad'') [ReadText [103, 104], ReadNoData])))
       = [ReadNoData]
   \<and> events
        (snd (plain_acquire (desktop (ustr ''Notepad'') [ReadText [103, 104], ReadNoData])))
       = [Sleep 50, OpenClipboard, EmptyClipboard, CloseClipboard,
          SendInput [INPUT 17 29 0, INPUT 45 82 0, INPUT 45 82 2, INPUT 17 29 2], Sleep 80,
          OpenClipboard, GetClipboardData, GlobalLock, GlobalUnlock, CloseClipboard]
   \<and> clipboard_reads (desktop (ustr ''Notepad'') [ReadNoData, ReadText []])
     = [ReadNoData, ReadText []]
   \<and> py_not (read_result (ReadText []))
   \<and> fst (convert_plain (desktop (ustr ''Notepad'') [ReadNoData, ReadText []])) = Inr False"
  using
    plain_acquisition_fallback_once
      [of "desktop (ustr ''Notepad'') [ReadNoData, ReadText [103, 104]]"
          ReadNoData "ReadText [103, 104]" "[]"]
    plain_acquisition_fallback_once
      [of "desktop (ustr ''Notepad'') [ReadText [103, 104], ReadNoData]"
          "ReadText [103, 104]" ReadNoData "[]"]
    plain_acquisition_fallback_once
      [of "desktop (ustr ''Notepad'') [ReadNoData, ReadText []]"
          ReadNoData "ReadText []" "[]"]
  by (simp add: desktop_def read_result_def py_not_def key_batches_def clipboard_read_calls_def)

section \<open>Window classification\<close>

lemma get_window_class_fst:
  "fst (get_window_class hwnd w) =
     (case window_class w hwnd of None \<Rightarrow> [] | Some cn \<Rightarrow> take 255 cn)"
  by (simp add: get_window_class_def split: option.splits)

lemma get_window_class_snd:
  "snd (get_window_class hwnd w) = emit [GetClassNameW hwnd] w"
  by (simp add: get_window_class_def split: option.splits)

lemma window_class_emit: "window_class (emit es w) = window_class w"
  by (simp add: emit_def)

lemma classify_fst:
  "fst (classify hwnd w) =
     (if fst (get_window_class hwnd w) \<in> set console_classes
      then if fst (get_window_class hwnd w) = ustr ''ConsoleWindowClass''
           then LegacyConsole else ModernTerminal
      else Plain)"
  by (simp add: classify_def is_console_window_def is_classic_console_def case_prod_beta
      get_window_class_fst get_window_class_snd window_class_emit)

lemma console_class_lengths: "\<forall>c\<in>set console_classes. length c < 255"
  by (simp add: console_classes_def ustr_def)

lemma take_255_console_class:
  "take 255 cn \<in> set console_classes \<longleftrightarrow> cn \<in> set console_classes"
proof
  assume a: "take 255 cn \<in> set console_classes"
  with console_class_lengths have "length (take 255 cn) < 255" by blast
  then have "take 255 cn = cn" by simp
  with a show "cn \<in> set console_classes" by simp
next
  assume a: "cn \<in> set console_classes"
  with console_class_lengths have "length cn < 255" by blast
  then have "take 255 cn = cn" by simp
  with a show "take 255 cn \<in> set console_classes" by simp
qed

lemma take_255_classic:
  "take 255 cn = ustr ''ConsoleWindowClass'' \<longleftrightarrow> cn = ustr ''ConsoleWindowClass''"
  by (rule take_eq_short) (simp add: ustr_def)

lemma classic_in_console_classes: "ustr ''ConsoleWindowClass'' \<in> set console_classes"
  by (simp add: console_classes_def)

lemma empty_not_console_class: "[] \<notin> set console_classes"
  by (simp add: console_classes_def ustr_def)

lemma convert_selected_text_dispatch:
  "convert_selected_text w =
     (let (hwnd, w1) = get_foreground_hwnd w;
          (category, w2) = classify hwnd w1
      in case category of
           LegacyConsole \<Rightarrow> (let (r, w3) = convert_in_console hwnd w2 in (Inr r, w3))
         | ModernTerminal \<Rightarrow> (let (r, w3) = convert_in_terminal hwnd w2 in (Inr r, w3))
         | Plain \<Rightarrow> convert_plain w2)"
  by (simp add: convert_selected_text_def classify_def case_prod_beta Let_def)

text \<open>
  Claim C9. The window is classified as a legacy console exactly when its class name is
  \<^verbatim>\<open>ConsoleWindowClass\<close>; a window whose class name is not one of the three console
  and terminal class names is plain; a null or invalid handle, for which the
  class-name query yields the empty string, is plain. \<^verbatim>\<open>convert_selected_text\<close> takes the
  path of the category of the foreground window.
\<close>

theorem window_classification:
  "(fst (classify hwnd w) = LegacyConsole
      \<longleftrightarrow> window_class w hwnd = Some (ustr ''ConsoleWindowClass''))
   \<and> (window_class w hwnd = Some cn \<and> cn \<notin> set console_classes
      \<longrightarrow> fst (classify hwnd w) = Plain)
   \<and> (window_class w hwnd = None \<longrightarrow> fst (classify hwnd w) = Plain)
   \<and> convert_selected_text w =
     (let (hwnd, w1) = get_foreground_hwnd w;
          (category, w2) = classify hwnd w1
      in case category of
           LegacyConsole \<Rightarrow> (let (r, w3) = convert_in_console hwnd w2 in (Inr r, w3))
         | ModernTerminal \<Rightarrow> (let (r, w3) = convert_in_terminal hwnd w2 in (Inr r, w3))
         | Plain \<Rightarrow> convert_plain w2)"
proof -
  have a: "fst (classify hwnd w) = LegacyConsole
      \<longleftrightarrow> window_class w hwnd = Some (ustr ''ConsoleWindowClass'')"
  proof (cases "window_class w hwnd")
    case None
    then show ?thesis
      by (simp add: classify_fst get_window_class_fst empty_not_console_class)
  next
    case (Some c)
    then show ?thesis
      using classic_in_console_classes
      by (auto simp: classify_fst get_window_class_fst take_255_console_class
          take_255_classic)
  qed
  have b: "window_class w hwnd = Some cn \<and> cn \<notin> set console_classes
      \<longrightarrow> fst (classify hwnd w) = Plain"
    by (simp add: classify_fst get_window_class_fst take_255_console_class)
  have c: "window_class w hwnd = None \<longrightarrow> fst (classify hwnd w) = Plain"
    by (simp add: classify_fst get_window_class_fst empty_not_console_class)
  from a b c convert_selected_text_dispatch [of w] show ?thesis by blast
qed

text \<open>A legacy console window, a Notepad window and the null handle.\<close>

theorem window_classification_witness:
  "window_class (desktop (ustr ''ConsoleWindowClass'') []) 1 = Some (ustr ''ConsoleWindowClass'')
   \<and> fst (classify 1 (desktop (ustr ''ConsoleWindowClass'') [])) = LegacyConsole
   \<and> window_class (desktop (ustr ''Notepad'') []) 1 = Some (ustr ''Notepad'')
   \<and> ustr ''Notepad'' \<notin> set console_classes
   \<and> fst (classify 1 (desktop (ustr ''Notepad'') [])) = Plain
   \<and> window_class (desktop (ustr ''Notepad'') []) 0 = None
   \<and> fst (classify 0 (desktop (ustr ''Notepad'') [])) = Plain"
  using
    window_classification [of 1 "desktop (ustr ''ConsoleWindowClass'') []" "[]"]
    window_classification [of 1 "desktop (ustr ''Notepad'') []" "ustr ''Notepad''"]
    window_classification [of 0 "desktop (ustr ''Notepad'') []" "[]"]
  by (simp add: desktop_def console_classes_def ustr_def)

section \<open>Runs in the example worlds\<close>

lemmas run =
  get_console_last_word_def console_desktop_def desktop_def sleep_def emit_def Let_def
  rstrip_def strip_def py_split_def isspace_def py_not_def terminal_acquire_def
  plain_acquire_def clear_clipboard_def send_two_modifier_combo_def send_ctrl_key_def
  send_key_combo_def send_input_keys_def get_clipboard_text_def next_clipboard_read_def
  next_foreground_def scan_codes_def extended_keys_def case_prod_beta

lemma convert_digits: "convert_text [49, 50, 51] = [49, 50, 51]"
  by (simp add: ev)

lemma console_digits:
  "fst (get_console_last_word 1 (sleep 100 (console_desktop (Some (3, 0)) [49, 50, 51])))
     = Some [49, 50, 51]"
  by (simp add: run)

lemma terminal_digits:
  "fst (terminal_acquire
          (desktop (ustr ''CASCADIA_HOSTING_WINDOW_CLASS'') [ReadText [32, 49, 50, 51, 10]]))
     = Some [49, 50, 51]"
  by (simp add: run)

lemma plain_digits:
  "fst (plain_acquire (desktop (ustr ''Notepad'') [ReadText [49, 50, 51]])) = Some [49, 50, 51]"
  by (simp add: run)

text \<open>The three paths at the text \<^verbatim>\<open>123\<close>, which conversion leaves unchanged.\<close>

theorem unchanged_text_aborts_witness:
  "fst (get_console_last_word 1 (sleep 100 (console_desktop (Some (3, 0)) [49, 50, 51])))
     = Some [49, 50, 51]
   \<and> convert_text [49, 50, 51] = [49, 50, 51]
   \<and> convert_in_console 1 (console_desktop (Some (3, 0)) [49, 50, 51])
       = (False,
          snd (get_console_last_word 1 (sleep 100 (console_desktop (Some (3, 0)) [49, 50, 51]))))
   \<and> fst (terminal_acquire
          (desktop (ustr ''CASCADIA_HOSTING_WINDOW_CLASS'') [ReadText [32, 49, 50, 51, 10]]))
       = Some [49, 50, 51]
   \<and> convert_in_terminal 1
        (desktop (ustr ''CASCADIA_HOSTING_WINDOW_CLASS'') [ReadText [32, 49, 50, 51, 10]])
       = (False,
          snd (terminal_acquire
            (desktop (ustr ''CASCADIA_HOSTING_WINDOW_CLASS'') [ReadText [32, 49, 50, 51, 10]])))
   \<and> fst (plain_acquire (desktop (ustr ''Notepad'') [ReadText [49, 50, 51]]))
       = Some [49, 50, 51]
   \<and> convert_plain (desktop (ustr ''Notepad'') [ReadText [49, 50, 51]])
       = (Inr False, snd (plain_acquire (desktop (ustr ''Notepad'') [ReadText [49, 50, 51]])))"
proof -
  let ?C = "console_desktop (Some (3, 0)) [49, 50, 51]"
  let ?T = "desktop (ustr ''CASCADIA_HOSTING_WINDOW_CLASS'') [ReadText [32, 49, 50, 51, 10]]"
  let ?P = "desktop (ustr ''Notepad'') [ReadText [49, 50, 51]]"
  have c: "get_console_last_word 1 (sleep 100 ?C)
             = (Some [49, 50, 51], snd (get_console_last_word 1 (sleep 100 ?C)))"
    using console_digits by (simp add: prod_eq_iff)
  have t: "terminal_acquire ?T = (Some [49, 50, 51], snd (terminal_acquire ?T))"
    using terminal_digits by (simp add: prod_eq_iff)
  have p: "plain_acquire ?P = (Some [49, 50, 51], snd (plain_acquire ?P))"
    using plain_digits by (simp add: prod_eq_iff)
  have 1: "convert_in_console 1 ?C = (False, snd (get_console_last_word 1 (sleep 100 ?C)))"
    using unchanged_text_aborts
      [of 1 ?C "[49, 50, 51]" "snd (get_console_last_word 1 (sleep 100 ?C))"]
      c convert_digits by blast
  have 2: "convert_in_terminal 1 ?T = (False, snd (terminal_acquire ?T))"
    using unchanged_text_aborts [of 1 ?T "[49, 50, 51]" "snd (terminal_acquire ?T)"]
      t convert_digits by blast
  have 3: "convert_plain ?P = (Inr False, snd (plain_acquire ?P))"
    using unchanged_text_aborts [of 1 ?P "[49, 50, 51]" "snd (plain_acquire ?P)"]
      p convert_digits by blast
  from console_digits terminal_digits plain_digits convert_digits 1 2 3
  show ?thesis by blast
qed

text \<open>
  The results of \<^verbatim>\<open>get_console_last_word\<close> that are \<^verbatim>\<open>None\<close>: attach fails, the cursor is
  at column zero, or the row up to the cursor is empty after trimming.
\<close>

lemma take_length_takeWhile: "take (length xs) (takeWhile P xs) = takeWhile P xs"
  by (simp add: length_takeWhile_le)

lemma get_console_last_word_none:
  "\<not> console_attach w \<Longrightarrow> fst (get_console_last_word hwnd w) = None"
  "console_info w = Some (0, y) \<Longrightarrow> fst (get_console_last_word hwnd w) = None"
  "console_info w = Some (x, y) \<Longrightarrow>
     rstrip (takeWhile (\<lambda>c. c \<noteq> 0) (take x (console_row w y))) = [] \<Longrightarrow>
     fst (get_console_last_word hwnd w) = None"
  by (simp_all add: get_console_last_word_def emit_def Let_def take_length_takeWhile
      del: length_take)

text \<open>
  Claim C8 fails on the code. With the console attached and a valid output handle,
  \<^verbatim>\<open>get_console_last_word\<close> returns \<^verbatim>\<open>None\<close> without calling \<^verbatim>\<open>FreeConsole\<close> again when
  \<^verbatim>\<open>GetConsoleScreenBufferInfo\<close> fails and when the cursor is at column zero: the only
  \<^verbatim>\<open>FreeConsole\<close> of these two traces is the one before \<^verbatim>\<open>AttachConsole\<close>. The two
  sibling paths, an invalid output handle and a row that is blank up to the cursor,
  do detach.
\<close>

theorem console_left_attached:
  "fst (get_console_last_word 1 (console_desktop None [])) = None
   \<and> events (snd (get_console_last_word 1 (console_desktop None [])))
       = [GetWindowThreadProcessId 1, FreeConsole, AttachConsole 7, GetStdHandle,
          GetConsoleScreenBufferInfo]
   \<and> fst (get_console_last_word 1 (console_desktop (Some (0, 4)) [])) = None
   \<and> events (snd (get_console_last_word 1 (console_desktop (Some (0, 4)) [])))
       = [GetWindowThreadProcessId 1, FreeConsole, AttachConsole 7, GetStdHandle,
          GetConsoleScreenBufferInfo]
   \<and> events (snd (get_console_last_word 1
        ((console_desktop (Some (0, 4)) [])\<lparr>console_handle := - 1\<rparr>)))
       = [GetWindowThreadProcessId 1, FreeConsole, AttachConsole 7, GetStdHandle, FreeConsole]
   \<and> events (snd (get_console_last_word 1 (console_desktop (Some (2, 4)) [32, 32])))
       = [GetWindowThreadProcessId 1, FreeConsole, AttachConsole 7, GetStdHandle,
          GetConsoleScreenBufferInfo, ReadConsoleOutputCharacterW 2 4, FreeConsole]"
  by (simp add: run)

section \<open>The replacement step\<close>














section \<open>The end-to-end scenario\<close>

lemma detect_ruddsh: "detect_layout [1088, 1091, 1076, 1076, 1096] = ''ru''"
  by (simp add: ev)

lemma convert_ruddsh: "convert_text [1088, 1091, 1076, 1076, 1096] = [104, 101, 108, 108, 105]"
  by (simp add: ev)

lemma convert_ruddshch: "convert_text [1088, 1091, 1076, 1076, 1097] = [104, 101, 108, 108, 111]"
  by (simp add: ev)

text \<open>
  Claim C2, as amended. The word U+0440 U+0443 U+0434 U+0434 U+0448 is detected as RU
  and converts to \<^verbatim>\<open>helli\<close>; it is the word ending in U+0449 that converts to \<^verbatim>\<open>hello\<close>.
  In the legacy console path and in the modern terminal path (there after one End key
  press) the replacement step for this word sends exactly 5 backspace key presses,
  then exactly 5 Unicode character injections, then asks for the foreground window
  and, when there is one, posts one layout-change request with the EN layout
  identifier to it.
\<close>

theorem helli_scenario:
  "detect_layout [1088, 1091, 1076, 1076, 1096] = ''ru''
   \<and> convert_text [1088, 1091, 1076, 1076, 1096] = [104, 101, 108, 108, 105]
   \<and> convert_text [1088, 1091, 1076, 1076, 1097] = [104, 101, 108, 108, 111]
   \<and> (get_console_last_word hwnd (sleep 100 w) = (Some [1088, 1091, 1076, 1076, 1096], w1)
      \<longrightarrow> fst (convert_in_console hwnd w) = True
        \<and> events (snd (convert_in_console hwnd w)) =
            events w1
            @ [SendInput [INPUT VK_BACKSPACE 0 0, INPUT VK_BACKSPACE 0 KEYEVENTF_KEYUP], Sleep 10,
               SendInput [INPUT VK_BACKSPACE 0 0, INPUT VK_BACKSPACE 0 KEYEVENTF_KEYUP], Sleep 10,
               SendInput [INPUT VK_BACKSPACE 0 0, INPUT VK_BACKSPACE 0 KEYEVENTF_KEYUP], Sleep 10,
               SendInput [INPUT VK_BACKSPACE 0 0, INPUT VK_BACKSPACE 0 KEYEVENTF_KEYUP], Sleep 10,
               SendInput [INPUT VK_BACKSPACE 0 0, INPUT VK_BACKSPACE 0 KEYEVENTF_KEYUP], Sleep 10,
               Sleep 50,
               SendInput (unicode_inputs 104), Sleep 10,
               SendInput (unicode_inputs 101), Sleep 10,
               SendInput (unicode_inputs 108), Sleep 10,
               SendInput (unicode_inputs 108), Sleep 10,
               SendInput (unicode_inputs 105), Sleep 10,
               Sleep 50, GetForegroundWindow]
            @ (if next_foreground w1 \<noteq> 0
               then [PostMessageW (next_foreground w1) WM_INPUTLANGCHANGEREQUEST 0 HKL_EN]
               else []))
   \<and> (terminal_acquire w = (Some [1088, 1091, 1076, 1076, 1096], w1)
      \<longrightarrow> fst (convert_in_terminal hwnd w) = True
        \<and> events (snd (convert_in_terminal hwnd w)) =
            events w1
            @ [SendInput [INPUT VK_END 0 0, INPUT VK_END 0 KEYEVENTF_KEYUP], Sleep 30,
               SendInput [INPUT VK_BACKSPACE 0 0, INPUT VK_BACKSPACE 0 KEYEVENTF_KEYUP], Sleep 10,
               SendInput [INPUT VK_BACKSPACE 0 0, INPUT VK_BACKSPACE 0 KEYEVENTF_KEYUP], Sleep 10,
               SendInput [INPUT VK_BACKSPACE 0 0, INPUT VK_BACKSPACE 0 KEYEVENTF_KEYUP], Sleep 10,
               SendInput [INPUT VK_BACKSPACE 0 0, INPUT VK_BACKSPACE 0 KEYEVENTF_KEYUP], Sleep 10,
               SendInput [INPUT VK_BACKSPACE 0 0, INPUT VK_BACKSPACE 0 KEYEVENTF_KEYUP], Sleep 10,
               Sleep 50,
               SendInput (unicode_inputs 104), Sleep 10,
               SendInput (unicode_inputs 101), Sleep 10,
               SendInput (unicode_inputs 108), Sleep 10,
               SendInput (unicode_inputs 108), Sleep 10,
               SendInput (unicode_inputs 105), Sleep 10,
               Sleep 50, GetForegroundWindow]
            @ (if next_foreground w1 \<noteq> 0
               then [PostMessageW (next_foreground w1) WM_INPUTLANGCHANGEREQUEST 0 HKL_EN]
               else []))"
proof -
  let ?word = "[1088, 1091, 1076, 1076, 1096::nat]"
  have ne: "convert_text ?word \<noteq> ?word" by (simp add: convert_ruddsh)
  have len: "length ?word = Suc (Suc (Suc (Suc (Suc 0))))" by simp
  have c: "get_console_last_word hwnd (sleep 100 w) = (Some ?word, w1)
      \<longrightarrow> fst (convert_in_console hwnd w) = True
        \<and> events (snd (convert_in_console hwnd w)) =
            events w1
            @ [SendInput [INPUT VK_BACKSPACE 0 0, INPUT VK_BACKSPACE 0 KEYEVENTF_KEYUP], Sleep 10,
               SendInput [INPUT VK_BACKSPACE 0 0, INPUT VK_BACKSPACE 0 KEYEVENTF_KEYUP], Sleep 10,
               SendInput [INPUT VK_BACKSPACE 0 0, INPUT VK_BACKSPACE 0 KEYEVENTF_KEYUP], Sleep 10,
               SendInput [INPUT VK_BACKSPACE 0 0, INPUT VK_BACKSPACE 0 KEYEVENTF_KEYUP], Sleep 10,
               SendInput [INPUT VK_BACKSPACE 0 0, INPUT VK_BACKSPACE 0 KEYEVENTF_KEYUP], Sleep 10,
               Sleep 50,
               SendInput (unicode_inputs 104), Sleep 10,
               SendInput (unicode_inputs 101), Sleep 10,
               SendInput (unicode_inputs 108), Sleep 10,
               SendInput (unicode_inputs 108), Sleep 10,
               SendInput (unicode_inputs 105), Sleep 10,
               Sleep 50, GetForegroundWindow]
            @ (if next_foreground w1 \<noteq> 0
               then [PostMessageW (next_foreground w1) WM_INPUTLANGCHANGEREQUEST 0 HKL_EN]
               else [])"
  proof
    assume a: "get_console_last_word hwnd (sleep 100 w) = (Some ?word, w1)"
    from console_replacement [OF a ne] show "fst (convert_in_console hwnd w) = True
        \<and> events (snd (convert_in_console hwnd w)) =
            events w1
            @ [SendInput [INPUT VK_BACKSPACE 0 0, INPUT VK_BACKSPACE 0 KEYEVENTF_KEYUP], Sleep 10,
               SendInput [INPUT VK_BACKSPACE 0 0, INPUT VK_BACKSPACE 0 KEYEVENTF_KEYUP], Sleep 10,
               SendInput [INPUT VK_BACKSPACE 0 0, INPUT VK_BACKSPACE 0 KEYEVENTF_KEYUP], Sleep 10,
               SendInput [INPUT VK_BACKSPACE 0 0, INPUT VK_BACKSPACE 0 KEYEVENTF_KEYUP], Sleep 10,
               SendInput [INPUT VK_BACKSPACE 0 0, INPUT VK_BACKSPACE 0 KEYEVENTF_KEYUP], Sleep 10,
               Sleep 50,
               SendInput (unicode_inputs 104), Sleep 10,
               SendInput (unicode_inputs 101), Sleep 10,
               SendInput (unicode_inputs 108), Sleep 10,
               SendInput (unicode_inputs 108), Sleep 10,
               SendInput (unicode_inputs 105), Sleep 10,
               Sleep 50, GetForegroundWindow]
            @ (if next_foreground w1 \<noteq> 0
               then [PostMessageW (next_foreground w1) WM_INPUTLANGCHANGEREQUEST 0 HKL_EN]
               else [])"
      by (simp add: convert_ruddsh detect_ruddsh len)
  qed
  have t: "terminal_acquire w = (Some ?word, w1)
      \<longrightarrow> fst (convert_in_terminal hwnd w) = True
        \<and> events (snd (convert_in_terminal hwnd w)) =
            events w1
            @ [SendInput [INPUT VK_END 0 0, INPUT VK_END 0 KEYEVENTF_KEYUP], Sleep 30,
               SendInput [INPUT VK_BACKSPACE 0 0, INPUT VK_BACKSPACE 0 KEYEVENTF_KEYUP], Sleep 10,
               SendInput [INPUT VK_BACKSPACE 0 0, INPUT VK_BACKSPACE 0 KEYEVENTF_KEYUP], Sleep 10,
               SendInput [INPUT VK_BACKSPACE 0 0, INPUT VK_BACKSPACE 0 KEYEVENTF_KEYUP], Sleep 10,
               SendInput [INPUT VK_BACKSPACE 0 0, INPUT VK_BACKSPACE 0 KEYEVENTF_KEYUP], Sleep 10,
               SendInput [INPUT VK_BACKSPACE 0 0, INPUT VK_BACKSPACE 0 KEYEVENTF_KEYUP], Sleep 10,
               Sleep 50,
               SendInput (unicode_inputs 104), Sleep 10,
               SendInput (unicode_inputs 101), Sleep 10,
               SendInput (unicode_inputs 108), Sleep 10,
               SendInput (unicode_inputs 108), Sleep 10,
               SendInput (unicode_inputs 105), Sleep 10,
               Sleep 50, GetForegroundWindow]
            @ (if next_foreground w1 \<noteq> 0
               then [PostMessageW (next_foreground w1) WM_INPUTLANGCHANGEREQUEST 0 HKL_EN]
               else [])"
  proof
    assume a: "terminal_acquire w = (Some ?word, w1)"
    from terminal_replacement [OF a ne] show "fst (convert_in_terminal hwnd w) = True
        \<and> events (snd (convert_in_terminal hwnd w)) =
            events w1
            @ [SendInput [INPUT VK_END 0 0, INPUT VK_END 0 KEYEVENTF_KEYUP], Sleep 30,
               SendInput [INPUT VK_BACKSPACE 0 0, INPUT VK_BACKSPACE 0 KEYEVENTF_KEYUP], Sleep 10,
               SendInput [INPUT VK_BACKSPACE 0 0, INPUT VK_BACKSPACE 0 KEYEVENTF_KEYUP], Sleep 10,
               SendInput [INPUT VK_BACKSPACE 0 0, INPUT VK_BACKSPACE 0 KEYEVENTF_KEYUP], Sleep 10,
               SendInput [INPUT VK_BACKSPACE 0 0, INPUT VK_BACKSPACE 0 KEYEVENTF_KEYUP], Sleep 10,
               SendInput [INPUT VK_BACKSPACE 0 0, INPUT VK_BACKSPACE 0 KEYEVENTF_KEYUP], Sleep 10,
               Sleep 50,
               SendInput (unicode_inputs 104), Sleep 10,
               SendInput (unicode_inputs 101), Sleep 10,
               SendInput (unicode_inputs 108), Sleep 10,
               SendInput (unicode_inputs 108), Sleep 10,
               SendInput (unicode_inputs 105), Sleep 10,
               Sleep 50, GetForegroundWindow]
            @ (if next_foreground w1 \<noteq> 0
               then [PostMessageW (next_foreground w1) WM_INPUTLANGCHANGEREQUEST 0 HKL_EN]
               else [])"
      by (simp add: convert_ruddsh detect_ruddsh len)
  qed
  from detect_ruddsh convert_ruddsh convert_ruddshch c t show ?thesis by blast
qed

text \<open>Claim C2 as stated fails: the word of the claim does not convert to \<^verbatim>\<open>hello\<close>.\<close>

theorem helli_scenario_counterexample:
  "convert_text [1088, 1091, 1076, 1076, 1096] = [104, 101, 108, 108, 105]
   \<and> [104, 101, 108, 108, 105] \<noteq> [104, 101, 108, 108, 111::nat]"
  by (simp add: convert_ruddsh)

lemma console_ruddsh:
  "fst (get_console_last_word 1
         (sleep 100 (console_desktop (Some (5, 0)) [1088, 1091, 1076, 1076, 1096])))
     = Some [1088, 1091, 1076, 1076, 1096]"
  "events (snd (get_console_last_word 1
         (sleep 100 (console_desktop (Some (5, 0)) [1088, 1091, 1076, 1076, 1096]))))
     = [Sleep 100, GetWindowThreadProcessId 1, FreeConsole, AttachConsole 7, GetStdHandle,
        GetConsoleScreenBufferInfo, ReadConsoleOutputCharacterW 5 0, FreeConsole]"
  "next_foreground (snd (get_console_last_word 1
         (sleep 100 (console_desktop (Some (5, 0)) [1088, 1091, 1076, 1076, 1096])))) = 1"
  by (simp_all add: run)

lemma terminal_ruddsh:
  "fst (terminal_acquire (desktop (ustr ''CASCADIA_HOSTING_WINDOW_CLASS'')
          [ReadText [1088, 1091, 1076, 1076, 1096]]))
     = Some [1088, 1091, 1076, 1076, 1096]"
  "events (snd (terminal_acquire (desktop (ustr ''CASCADIA_HOSTING_WINDOW_CLASS'')
          [ReadText [1088, 1091, 1076, 1076, 1096]])))
     = [Sleep 100, OpenClipboard, EmptyClipboard, CloseClipboard,
        SendInput [INPUT 17 29 0, INPUT 16 42 0, INPUT 67 46 0, INPUT 67 46 2, INPUT 16 42 2,
                   INPUT 17 29 2],
        Sleep 200, OpenClipboard, GetClipboardData, GlobalLock, GlobalUnlock, CloseClipboard]"
  "next_foreground (snd (terminal_acquire (desktop (ustr ''CASCADIA_HOSTING_WINDOW_CLASS'')
          [ReadText [1088, 1091, 1076, 1076, 1096]]))) = 1"
  by (simp_all add: run)

text \<open>The scenario in a legacy console and in a terminal window, each with a foreground window.\<close>

theorem helli_scenario_witness:
  "fst (get_console_last_word 1
         (sleep 100 (console_desktop (Some (5, 0)) [1088, 1091, 1076, 1076, 1096])))
     = Some [1088, 1091, 1076, 1076, 1096]
   \<and> events (snd (convert_in_console 1
        (console_desktop (Some (5, 0)) [1088, 1091, 1076, 1076, 1096])))
     = [Sleep 100, GetWindowThreadProcessId 1, FreeConsole, AttachConsole 7, GetStdHandle,
        GetConsoleScreenBufferInfo, ReadConsoleOutputCharacterW 5 0, FreeConsole,
        SendInput [INPUT 8 0 0, INPUT 8 0 2], Sleep 10,
        SendInput [INPUT 8 0 0, INPUT 8 0 2], Sleep 10,
        SendInput [INPUT 8 0 0, INPUT 8 0 2], Sleep 10,
        SendInput [INPUT 8 0 0, INPUT 8 0 2], Sleep 10,
        SendInput [INPUT 8 0 0, INPUT 8 0 2], Sleep 10,
        Sleep 50,
        SendInput [INPUT 0 104 4, INPUT 0 104 6], Sleep 10,
        SendInput [INPUT 0 101 4, INPUT 0 101 6], Sleep 10,
        SendInput [INPUT 0 108 4, INPUT 0 108 6], Sleep 10,
        SendInput [INPUT 0 108 4, INPUT 0 108 6], Sleep 10,
        SendInput [INPUT 0 105 4, INPUT 0 105 6], Sleep 10,
        Sleep 50, GetForegroundWindow, PostMessageW 1 80 0 67699721]
   \<and> fst (terminal_acquire (desktop (ustr ''CASCADIA_HOSTING_WINDOW_CLASS'')
          [ReadText [1088, 1091, 1076, 1076, 1096]]))
     = Some [1088, 1091, 1076, 1076, 1096]
   \<and> events (snd (convert_in_terminal 1 (desktop (ustr ''CASCADIA_HOSTING_WINDOW_CLASS'')
          [ReadText [1088, 1091, 1076, 1076, 1096]])))
     = [Sleep 100, OpenClipboard, EmptyClipboard, CloseClipboard,
        SendInput [INPUT 17 29 0, INPUT 16 42 0, INPUT 67 46 0, INPUT 67 46 2, INPUT 16 42 2,
                   INPUT 17 29 2],
        Sleep 200, OpenClipboard, GetClipboardData, GlobalLock, GlobalUnlock, CloseClipboard,
        SendInput [INPUT 35 0 0, INPUT 35 0 2], Sleep 30,
        SendInput [INPUT 8 0 0, INPUT 8 0 2], Sleep 10,
        SendInput [INPUT 8 0 0, INPUT 8 0 2], Sleep 10,
        SendInput [INPUT 8 0 0, INPUT 8 0 2], Sleep 10,
        SendInput [INPUT 8 0 0, INPUT 8 0 2], Sleep 10,
        SendInput [INPUT 8 0 0, INPUT 8 0 2], Sleep 10,
        Sleep 50,
        SendInput [INPUT 0 104 4, INPUT 0 104 6], Sleep 10,
        SendInput [INPUT 0 101 4, INPUT 0 101 6], Sleep 10,
        SendInput [INPUT 0 108 4, INPUT 0 108 6], Sleep 10,
        SendInput [INPUT 0 108 4, INPUT 0 108 6], Sleep 10,
        SendInput [INPUT 0 105 4, INPUT 0 105 6], Sleep 10,
        Sleep 50, GetForegroundWindow, PostMessageW 1 80 0 67699721]"
proof -
  let ?word = "[1088, 1091, 1076, 1076, 1096::nat]"
  let ?C = "console_desktop (Some (5, 0)) ?word"
  let ?T = "desktop (ustr ''CASCADIA_HOSTING_WINDOW_CLASS'') [ReadText ?word]"
  have c: "get_console_last_word 1 (sleep 100 ?C)
             = (Some ?word, snd (get_console_last_word 1 (sleep 100 ?C)))"
    using console_ruddsh(1) by (simp add: prod_eq_iff)
  have t: "terminal_acquire ?T = (Some ?word, snd (terminal_acquire ?T))"
    using terminal_ruddsh(1) by (simp add: prod_eq_iff)
  have 1: "events (snd (convert_in_console 1 ?C))
     = [Sleep 100, GetWindowThreadProcessId 1, FreeConsole, AttachConsole 7, GetStdHandle,
        GetConsoleScreenBufferInfo, ReadConsoleOutputCharacterW 5 0, FreeConsole,
        SendInput [INPUT 8 0 0, INPUT 8 0 2], Sleep 10,
        SendInput [INPUT 8 0 0, INPUT 8 0 2], Sleep 10,
        SendInput [INPUT 8 0 0, INPUT 8 0 2], Sleep 10,
        SendInput [INPUT 8 0 0, INPUT 8 0 2], Sleep 10,
        SendInput [INPUT 8 0 0, INPUT 8 0 2], Sleep 10,
        Sleep 50,
        SendInput [INPUT 0 104 4, INPUT 0 104 6], Sleep 10,
        SendInput [INPUT 0 101 4, INPUT 0 101 6], Sleep 10,
        SendInput [INPUT 0 108 4, INPUT 0 108 6], Sleep 10,
        SendInput [INPUT 0 108 4, INPUT 0 108 6], Sleep 10,
        SendInput [INPUT 0 105 4, INPUT 0 105 6], Sleep 10,
        Sleep 50, GetForegroundWindow, PostMessageW 1 80 0 67699721]"
    using helli_scenario [of 1 ?C "snd (get_console_last_word 1 (sleep 100 ?C))"] c
    by (simp add: console_ruddsh unicode_inputs_def del: One_nat_def)
  have 2: "events (snd (convert_in_terminal 1 ?T))
     = [Sleep 100, OpenClipboard, EmptyClipboard, CloseClipboard,
        SendInput [INPUT 17 29 0, INPUT 16 42 0, INPUT 67 46 0, INPUT 67 46 2, INPUT 16 42 2,
                   INPUT 17 29 2],
        Sleep 200, OpenClipboard, GetClipboardData, GlobalLock, GlobalUnlock, CloseClipboard,
        SendInput [INPUT 35 0 0, INPUT 35 0 2], Sleep 30,
        SendInput [INPUT 8 0 0, INPUT 8 0 2], Sleep 10,
        SendInput [INPUT 8 0 0, INPUT 8 0 2], Sleep 10,
        SendInput [INPUT 8 0 0, INPUT 8 0 2], Sleep 10,
        SendInput [INPUT 8 0 0, INPUT 8 0 2], Sleep 10,
        SendInput [INPUT 8 0 0, INPUT 8 0 2], Sleep 10,
        Sleep 50,
        SendInput [INPUT 0 104 4, INPUT 0 104 6], Sleep 10,
        SendInput [INPUT 0 101 4, INPUT 0 101 6], Sleep 10,
        SendInput [INPUT 0 108 4, INPUT 0 108 6], Sleep 10,
        SendInput [INPUT 0 108 4, INPUT 0 108 6], Sleep 10,
        SendInput [INPUT 0 105 4, INPUT 0 105 6], Sleep 10,
        Sleep 50, GetForegroundWindow, PostMessageW 1 80 0 67699721]"
    using helli_scenario [of 1 ?T "snd (terminal_acquire ?T)"] t
    by (simp add: terminal_ruddsh unicode_inputs_def del: One_nat_def)
  from console_ruddsh(1) terminal_ruddsh(1) 1 2 show ?thesis by blast
qed

end
